theory Spec2Isabelle
  imports Main "HOL-Library.AList"
begin

section \<open>Python values, dictionaries and exceptions\<close>

text \<open>
  A Python \<open>str\<close> and a Python \<open>bytes\<close> object are both modelled as \<open>string\<close>
  (a list of 8-bit characters). A Python \<open>dict\<close> with string keys is an association
  list whose keys are distinct: it keeps the insertion order, which the report writers
  depend on. Assigning to a key that is present replaces the value where it stands,
  assigning to a new key appends the entry, as Python does.

  The JSON values of the controller's records are strings; a device record holds
  strings and, once enriched, the dictionary of its interfaces.
\<close>

type_synonym 'v dict = "(string \<times> 'v) list"

datatype val = Str string | Dict "string dict"

datatype exn =
    KeyError string
  | IndexError
  | TypeError
  | AttributeError
  | UnicodeEncodeError
  | UnicodeDecodeError
  | BinasciiError
  | ZlibError
  | IOError
  | ValueError
  | RecursionError
  | RequestException
  | ConnectionError
  | Timeout
  | HTTPError nat
  | JSONDecodeError

definition dict_get :: "'v dict \<Rightarrow> string \<Rightarrow> 'v option" where
  "dict_get d k = map_of d k"

definition dict_set :: "'v dict \<Rightarrow> string \<Rightarrow> 'v \<Rightarrow> 'v dict" where
  "dict_set d k v = AList.update k v d"

definition dict_index :: "'v dict \<Rightarrow> string \<Rightarrow> exn + 'v" where
  "dict_index d k = (case map_of d k of None \<Rightarrow> Inl (KeyError k) | Some v \<Rightarrow> Inr v)"

definition dict_keys :: "'v dict \<Rightarrow> string list" where
  "dict_keys d = map fst d"

definition dict_values :: "'v dict \<Rightarrow> 'v list" where
  "dict_values d = map snd d"

definition get_default :: "string dict \<Rightarrow> string \<Rightarrow> string \<Rightarrow> string" where
  "get_default d k dflt = (case dict_get d k of None \<Rightarrow> dflt | Some v \<Rightarrow> v)"


section \<open>The device formatter: \<open>format_device_data\<close>\<close>

text \<open>
  The dictionary comprehension \<open>{key: device.get(key, "N/A") for key in keys}\<close>
  assigns the keys in list order into an empty dictionary.
\<close>

definition device_data :: "string dict \<Rightarrow> string list \<Rightarrow> val dict" where
  "device_data device keys =
     foldl (\<lambda>d key. dict_set d key (Str (get_default device key ''N/A''))) [] keys"

fun format_device_loop ::
  "val dict dict \<Rightarrow> string dict list \<Rightarrow> string list \<Rightarrow> exn + val dict dict" where
  "format_device_loop devices [] keys = Inr devices"
| "format_device_loop devices (device # rest) keys =
     (case dict_index device ''system-ip'' of
        Inl e \<Rightarrow> Inl e
      | Inr system_ip \<Rightarrow>
          format_device_loop (dict_set devices system_ip (device_data device keys)) rest keys)"

definition format_device_data :: "string dict list \<Rightarrow> string list \<Rightarrow> exn + val dict dict" where
  "format_device_data raw_devices keys = format_device_loop [] raw_devices keys"

text \<open>The raw devices that carry a given system IP, in list order.\<close>

definition with_system_ip :: "string \<Rightarrow> string dict list \<Rightarrow> string dict list" where
  "with_system_ip sip raw = filter (\<lambda>d. dict_get d ''system-ip'' = Some sip) raw"


section \<open>The HTTP fetcher: \<open>fetch_raw_json\<close>\<close>

text \<open>
  The network is the environment of the program: \<open>requests.get(url, auth=auth,
  verify=False)\<close> either raises or returns a response with a status code and a body.
  The body is what \<open>response.json()\<close> makes of it: not JSON at all, JSON nested so
  deep that the parser exhausts the recursion limit, a JSON object (of which only the
  \<open>data\<close> field is read, absent or a list of records), or a JSON value that is not an
  object. The library's part is written as the \<open>requests\<close> package documents it:
  \<open>raise_for_status\<close> raises \<open>HTTPError\<close> for the status codes 400 to 599 and for
  no other; \<open>json()\<close> turns the parser's \<open>JSONDecodeError\<close>, and no other exception,
  into the package's own \<open>JSONDecodeError\<close>, which is a \<open>RequestException\<close> (since
  version 2.27), as are \<open>HTTPError\<close>, \<open>ConnectionError\<close>, \<open>Timeout\<close> and every
  other exception the package raises itself (\<open>RequestException\<close> stands for the rest
  of the family). The parser's \<open>RecursionError\<close> passes through \<open>json()\<close> as it is.
\<close>

datatype body = NotJSON | TooDeep | JsonObject "string dict list option" | JsonNonObject

record response =
  status_code :: nat
  body :: body

type_synonym auth = "string \<times> string"

type_synonym http = "string \<Rightarrow> auth \<Rightarrow> exn + response"

datatype log_record = LogError exn

fun is_RequestException :: "exn \<Rightarrow> bool" where
  "is_RequestException RequestException = True"
| "is_RequestException ConnectionError = True"
| "is_RequestException Timeout = True"
| "is_RequestException (HTTPError code) = True"
| "is_RequestException JSONDecodeError = True"
| "is_RequestException e = False"

definition raise_for_status :: "response \<Rightarrow> exn + unit" where
  "raise_for_status r =
     (if 400 \<le> status_code r \<and> status_code r < 600 then Inl (HTTPError (status_code r))
      else Inr ())"

definition response_json :: "response \<Rightarrow> exn + body" where
  "response_json r =
     (case body r of
        NotJSON \<Rightarrow> Inl JSONDecodeError
      | TooDeep \<Rightarrow> Inl RecursionError
      | b \<Rightarrow> Inr b)"

fun get_data :: "body \<Rightarrow> exn + string dict list" where
  "get_data (JsonObject None) = Inr []"
| "get_data (JsonObject (Some records)) = Inr records"
| "get_data b = Inl AttributeError"

text \<open>The body of the \<open>try\<close> block.\<close>

definition fetch_attempt :: "http \<Rightarrow> string \<Rightarrow> auth \<Rightarrow> exn + string dict list" where
  "fetch_attempt requests_get query_url auth =
     (case requests_get query_url auth of
        Inl e \<Rightarrow> Inl e
      | Inr response \<Rightarrow>
          (case raise_for_status response of
             Inl e \<Rightarrow> Inl e
           | Inr u \<Rightarrow>
               (case response_json response of
                  Inl e \<Rightarrow> Inl e
                | Inr j \<Rightarrow> get_data j)))"

text \<open>
  \<open>except requests.RequestException\<close>: the handler logs and returns the empty list;
  any other exception leaves the function. The result is the list of log records
  written and the outcome.
\<close>

definition fetch_raw_json ::
  "http \<Rightarrow> string \<Rightarrow> auth \<Rightarrow> log_record list \<times> (exn + string dict list)" where
  "fetch_raw_json requests_get query_url auth =
     (case fetch_attempt requests_get query_url auth of
        Inl e \<Rightarrow> (if is_RequestException e then ([LogError e], Inr []) else ([], Inl e))
      | Inr records \<Rightarrow> ([], Inr records))"


section \<open>The interface enricher: \<open>is_ipv4\<close> and \<open>add_interface_info\<close>\<close>

text \<open>
  The standard library's \<open>ipaddress\<close> module is a parameter of the model: the two
  network constructors (called with \<open>strict=False\<close>; \<open>None\<close> stands for the
  \<open>AddressValueError\<close> or \<open>NetmaskValueError\<close> they raise) and the \<open>is_private\<close>
  property of a network. \<open>ipaddress.ip_network\<close> tries the IPv4 constructor, then the
  IPv6 constructor, and raises \<open>ValueError\<close> when both have failed.
\<close>

record 'n ipaddress =
  IPv4Network :: "string \<Rightarrow> 'n option"
  IPv6Network :: "string \<Rightarrow> 'n option"
  is_private :: "'n \<Rightarrow> bool"

definition ip_network :: "'n ipaddress \<Rightarrow> string \<Rightarrow> exn + 'n" where
  "ip_network lib address =
     (case IPv4Network lib address of
        Some n \<Rightarrow> Inr n
      | None \<Rightarrow>
          (case IPv6Network lib address of
             Some n \<Rightarrow> Inr n
           | None \<Rightarrow> Inl ValueError))"

definition is_ipv4 :: "'n ipaddress \<Rightarrow> string \<Rightarrow> bool" where
  "is_ipv4 lib address = (case ip_network lib address of Inr n \<Rightarrow> True | Inl e \<Rightarrow> False)"

text \<open>
  The inner loop over the fetched interfaces of one device; \<open>ifs\<close> is the dictionary
  \<open>devices[device]['interfaces']\<close>. The \<open>logging.info\<close> lines are left out: they
  read values the loop has already read and change nothing.
\<close>

fun interface_loop ::
  "'n ipaddress \<Rightarrow> string list \<Rightarrow> string dict \<Rightarrow> string dict list \<Rightarrow> exn + string dict" where
  "interface_loop lib ignore_interface_list ifs [] = Inr ifs"
| "interface_loop lib ignore_interface_list ifs (interface # rest) =
     (case dict_index interface ''ifname'' of
        Inl e \<Rightarrow> Inl e
      | Inr ifname \<Rightarrow>
          if ifname \<in> set ignore_interface_list
          then interface_loop lib ignore_interface_list ifs rest
          else
            (case dict_index interface ''ip-address'' of
               Inl e \<Rightarrow> Inl e
             | Inr address \<Rightarrow>
                 if is_ipv4 lib address then
                   (case ip_network lib address of
                      Inl e \<Rightarrow> Inl e
                    | Inr n \<Rightarrow>
                        if is_private lib n
                        then interface_loop lib ignore_interface_list ifs rest
                        else interface_loop lib ignore_interface_list
                               (dict_set ifs ifname address) rest)
                 else interface_loop lib ignore_interface_list ifs rest))"

text \<open>
  The outer loop runs over the keys of \<open>devices\<close>. For each key it fetches the
  interfaces, binds \<open>'interfaces'\<close> to an empty dictionary in the device's record and
  fills it.
\<close>

fun device_loop ::
  "http \<Rightarrow> 'n ipaddress \<Rightarrow> auth \<Rightarrow> string \<Rightarrow> string list \<Rightarrow> val dict dict \<Rightarrow> string list
     \<Rightarrow> exn + val dict dict" where
  "device_loop requests_get lib auth base ignore_interface_list devices [] = Inr devices"
| "device_loop requests_get lib auth base ignore_interface_list devices (device # rest) =
     (case snd (fetch_raw_json requests_get (base @ device) auth) of
        Inl e \<Rightarrow> Inl e
      | Inr interfaces \<Rightarrow>
          (case dict_index devices device of
             Inl e \<Rightarrow> Inl e
           | Inr data \<Rightarrow>
               (case interface_loop lib ignore_interface_list [] interfaces of
                  Inl e \<Rightarrow> Inl e
                | Inr ifs \<Rightarrow>
                    device_loop requests_get lib auth base ignore_interface_list
                      (dict_set devices device (dict_set data ''interfaces'' (Dict ifs)))
                      rest)))"

definition add_interface_info ::
  "http \<Rightarrow> 'n ipaddress \<Rightarrow> val dict dict \<Rightarrow> auth \<Rightarrow> string \<Rightarrow> string list
     \<Rightarrow> exn + val dict dict" where
  "add_interface_info requests_get lib devices auth interface_query_base_url
       ignore_interface_list =
     device_loop requests_get lib auth interface_query_base_url ignore_interface_list
       devices (dict_keys devices)"

text \<open>What the fetcher hands to the enricher for one device.\<close>

definition fetched :: "http \<Rightarrow> auth \<Rightarrow> string \<Rightarrow> string \<Rightarrow> exn + string dict list" where
  "fetched requests_get auth base device = snd (fetch_raw_json requests_get (base @ device) auth)"

text \<open>
  An interface record passes the three filters when it has both fields, its name is not
  ignored, and its address parses to a network that is not private.
\<close>

definition retained :: "'n ipaddress \<Rightarrow> string list \<Rightarrow> string dict \<Rightarrow> bool" where
  "retained lib ignore_interface_list interface =
     (case dict_get interface ''ifname'' of
        None \<Rightarrow> False
      | Some ifname \<Rightarrow>
          ifname \<notin> set ignore_interface_list \<and>
          (case dict_get interface ''ip-address'' of
             None \<Rightarrow> False
           | Some address \<Rightarrow>
               (case ip_network lib address of
                  Inl e \<Rightarrow> False
                | Inr n \<Rightarrow> \<not> is_private lib n)))"

text \<open>A record the loop can read: the fields the loop indexes are present.\<close>

definition readable :: "string list \<Rightarrow> string dict \<Rightarrow> bool" where
  "readable ignore_interface_list interface =
     (case dict_get interface ''ifname'' of
        None \<Rightarrow> False
      | Some ifname \<Rightarrow>
          ifname \<in> set ignore_interface_list \<or> dict_get interface ''ip-address'' \<noteq> None)"


text \<open>
  The records of a fetched list that pass the filters and carry a given interface name,
  in list order: the loop binds the name to the address of the last of them.
\<close>

definition named ::
  "'n ipaddress \<Rightarrow> string list \<Rightarrow> string \<Rightarrow> string dict list \<Rightarrow> string dict list" where
  "named lib ign n interfaces =
     filter (\<lambda>r. retained lib ign r \<and> dict_get r ''ifname'' = Some n) interfaces"


section \<open>An instance of the \<open>ipaddress\<close> module\<close>

text \<open>
  The theorems about the enricher hold for every \<open>ipaddress\<close> parameter. To run the
  model on the spec's scenarios, \<open>py_ipaddress\<close> follows the parsers of CPython's
  \<open>ipaddress.py\<close> on strings: a dotted quad with an optional prefix length, net mask
  or host mask, and a colon-separated IPv6 address, with or without a dotted-quad tail
  and a zone identifier, with an optional prefix length. A network is its address as a
  number and its prefix length.
\<close>

datatype ip_net = IPv4Net int nat | IPv6Net int nat

fun split_on :: "char \<Rightarrow> string \<Rightarrow> string list" where
  "split_on sep [] = [[]]"
| "split_on sep (c # cs) =
     (if c = sep then [] # split_on sep cs
      else (case split_on sep cs of
              [] \<Rightarrow> [[c]]
            | f # fs \<Rightarrow> (c # f) # fs))"

definition is_digit :: "char \<Rightarrow> bool" where
  "is_digit c = (48 \<le> (of_char c :: int) \<and> (of_char c :: int) \<le> 57)"

definition int_of_digits :: "string \<Rightarrow> int" where
  "int_of_digits s = foldl (\<lambda>n c. 10 * n + (of_char c - 48)) 0 s"

definition hex_value :: "char \<Rightarrow> int option" where
  "hex_value c =
     (let n = (of_char c :: int) in
      if 48 \<le> n \<and> n \<le> 57 then Some (n - 48)
      else if 97 \<le> n \<and> n \<le> 102 then Some (n - 87)
      else if 65 \<le> n \<and> n \<le> 70 then Some (n - 55)
      else None)"

definition parse_octet :: "string \<Rightarrow> int option" where
  "parse_octet s =
     (if s = [] \<or> \<not> list_all is_digit s \<or> 3 < length s
         \<or> (1 < length s \<and> hd s = CHR ''0'') \<or> 255 < int_of_digits s
      then None else Some (int_of_digits s))"

definition ipv4_int_from_string :: "string \<Rightarrow> int option" where
  "ipv4_int_from_string s =
     (if s = [] then None
      else (case map parse_octet (split_on CHR ''.'' s) of
              [Some a, Some b, Some c, Some d] \<Rightarrow> Some (((a * 256 + b) * 256 + c) * 256 + d)
            | octets \<Rightarrow> None))"

definition prefix_from_prefix_string :: "nat \<Rightarrow> string \<Rightarrow> nat option" where
  "prefix_from_prefix_string max_prefixlen s =
     (if s \<noteq> [] \<and> list_all is_digit s \<and> int_of_digits s \<le> int max_prefixlen
      then Some (nat (int_of_digits s)) else None)"

text \<open>A dotted mask: a net mask first, a host mask when it is no net mask.\<close>

definition prefix_from_ip_string :: "string \<Rightarrow> nat option" where
  "prefix_from_ip_string s =
     (case ipv4_int_from_string s of
        None \<Rightarrow> None
      | Some m \<Rightarrow>
          (case find (\<lambda>p. m = 2 ^ 32 - 2 ^ (32 - p)) [0..<33] of
             Some p \<Rightarrow> Some p
           | None \<Rightarrow> find (\<lambda>p. m = 2 ^ (32 - p) - 1) [0..<33]))"

definition make_netmask4 :: "string \<Rightarrow> nat option" where
  "make_netmask4 s =
     (case prefix_from_prefix_string 32 s of
        Some p \<Rightarrow> Some p
      | None \<Rightarrow> prefix_from_ip_string s)"

definition py_IPv4Network :: "string \<Rightarrow> ip_net option" where
  "py_IPv4Network address =
     (case split_on CHR ''/'' address of
        [a] \<Rightarrow> (case ipv4_int_from_string a of
                  None \<Rightarrow> None
                | Some ip \<Rightarrow> Some (IPv4Net ip 32))
      | [a, m] \<Rightarrow> (case ipv4_int_from_string a of
                     None \<Rightarrow> None
                   | Some ip \<Rightarrow>
                       (case make_netmask4 m of
                          None \<Rightarrow> None
                        | Some p \<Rightarrow> Some (IPv4Net (ip - ip mod 2 ^ (32 - p)) p)))
      | parts \<Rightarrow> None)"

definition parse_hextet :: "string \<Rightarrow> int option" where
  "parse_hextet s =
     (if s = [] \<or> 4 < length s \<or> \<not> list_all (\<lambda>c. hex_value c \<noteq> None) s then None
      else Some (foldl (\<lambda>n c. 16 * n + the (hex_value c)) 0 s))"

fun hextets_value :: "int \<Rightarrow> int option list \<Rightarrow> int option" where
  "hextets_value acc [] = Some acc"
| "hextets_value acc (None # hs) = None"
| "hextets_value acc (Some h # hs) = hextets_value (acc * 65536 + h) hs"

text \<open>
  A dotted-quad tail stands for two hextets. The module writes them in hexadecimal
  without leading zeros; here they are written with four digits, which parse to the same
  numbers and are never empty.
\<close>

definition hextet_string :: "int \<Rightarrow> string" where
  "hextet_string v =
     map (\<lambda>d. ''0123456789abcdef'' ! nat d)
       [v div 4096 mod 16, v div 256 mod 16, v div 16 mod 16, v mod 16]"

definition ipv6_parts :: "string \<Rightarrow> string list option" where
  "ipv6_parts s =
     (let parts = split_on CHR '':'' s in
      if s = [] \<or> length parts < 3 then None
      else if CHR ''.'' \<in> set (last parts) then
        (case ipv4_int_from_string (last parts) of
           None \<Rightarrow> None
         | Some ipv4_int \<Rightarrow>
             Some (butlast parts @
                   [hextet_string (ipv4_int div 65536 mod 65536),
                    hextet_string (ipv4_int mod 65536)]))
      else Some parts)"

definition ipv6_int_from_string :: "string \<Rightarrow> int option" where
  "ipv6_int_from_string s =
     (case ipv6_parts s of
        None \<Rightarrow> None
      | Some parts \<Rightarrow>
          (let n = length parts in
           if 9 < n then None
           else
             (case filter (\<lambda>i. parts ! i = []) [1..<n - 1] of
                [] \<Rightarrow> (if n \<noteq> 8 then None else hextets_value 0 (map parse_hextet parts))
              | [skip_index] \<Rightarrow>
                  (let parts_hi = (if hd parts = [] then skip_index - 1 else skip_index);
                       parts_lo = (if last parts = [] then n - skip_index - 2
                                   else n - skip_index - 1)
                   in if (hd parts = [] \<and> parts_hi \<noteq> 0) \<or> (last parts = [] \<and> parts_lo \<noteq> 0)
                         \<or> 8 \<le> parts_hi + parts_lo
                      then None
                      else
                        (case hextets_value 0 (map parse_hextet (take parts_hi parts)) of
                           None \<Rightarrow> None
                         | Some hi \<Rightarrow>
                             hextets_value (hi * 65536 ^ (8 - (parts_hi + parts_lo)))
                               (map parse_hextet (drop (n - parts_lo) parts))))
              | skips \<Rightarrow> None)))"

text \<open>
  \<open>IPv6Address\<close> of a string: a zone identifier after \<open>%\<close> is cut off; it must not be
  empty and must not contain another \<open>%\<close>.
\<close>

definition split_scope_id :: "string \<Rightarrow> string option" where
  "split_scope_id s =
     (case split_on CHR ''%'' s of
        [addr] \<Rightarrow> Some addr
      | [addr, scope_id] \<Rightarrow> (if scope_id = [] then None else Some addr)
      | parts \<Rightarrow> None)"

definition ipv6_address :: "string \<Rightarrow> int option" where
  "ipv6_address s =
     (case split_scope_id s of
        None \<Rightarrow> None
      | Some addr \<Rightarrow> ipv6_int_from_string addr)"

definition py_IPv6Network :: "string \<Rightarrow> ip_net option" where
  "py_IPv6Network address =
     (case split_on CHR ''/'' address of
        [a] \<Rightarrow> (case ipv6_address a of
                  None \<Rightarrow> None
                | Some ip \<Rightarrow> Some (IPv6Net ip 128))
      | [a, m] \<Rightarrow> (case ipv6_address a of
                     None \<Rightarrow> None
                   | Some ip \<Rightarrow>
                       (case prefix_from_prefix_string 128 m of
                          None \<Rightarrow> None
                        | Some p \<Rightarrow> Some (IPv6Net (ip - ip mod 2 ^ (128 - p)) p)))
      | parts \<Rightarrow> None)"

text \<open>
  The private networks of the module and the exceptions to them, as (address, prefix
  length). A network is private when its first and its last address lie in one of the
  private networks and neither lies in an exception.
\<close>

definition private_networks4 :: "(int \<times> nat) list" where
  "private_networks4 =
     [(0, 8), (167772160, 8), (2130706432, 8), (2851995648, 16), (2886729728, 12),
      (3221225472, 24), (3221225642, 31), (3221225984, 24), (3232235520, 16),
      (3323068416, 15), (3325256704, 24), (3405803776, 24), (4026531840, 4),
      (4294967295, 32)]"

definition private_networks_exceptions4 :: "(int \<times> nat) list" where
  "private_networks_exceptions4 = [(3221225481, 32), (3221225482, 32)]"

definition private_networks6 :: "(int \<times> nat) list" where
  "private_networks6 =
     [(1, 128), (0, 128), (281470681743360, 96),
      (524413980668812575603097810486951936, 48),
      (1329227995784915872903807060280344576, 64),
      (42540488161975842760550356425300246528, 23),
      (42540766411282592856903984951653826560, 32),
      (42545680458834377588178886921629466624, 16),
      (334965454937798799971759379190646833152, 7),
      (338288524927261089654018896841347694592, 10)]"

definition private_networks_exceptions6 :: "(int \<times> nat) list" where
  "private_networks_exceptions6 =
     [(42540488241204005274814694018844196865, 128),
      (42540488241204005274814694018844196866, 128),
      (42540488399660330303343369205932097536, 32),
      (42540488479219738492182115193345540096, 48),
      (42540490697277043217009159418706657280, 28),
      (42540491964927643445238560915409862656, 28)]"

definition contains :: "nat \<Rightarrow> (int \<times> nat) \<Rightarrow> int \<Rightarrow> bool" where
  "contains bits net ip = (case net of (base, q) \<Rightarrow> base \<le> ip \<and> ip < base + 2 ^ (bits - q))"

definition network_is_private ::
  "nat \<Rightarrow> (int \<times> nat) list \<Rightarrow> (int \<times> nat) list \<Rightarrow> int \<Rightarrow> nat \<Rightarrow> bool" where
  "network_is_private bits private exceptions ip p =
     (let broadcast = ip + 2 ^ (bits - p) - 1 in
      list_ex (\<lambda>net. contains bits net ip \<and> contains bits net broadcast) private \<and>
      list_all (\<lambda>net. \<not> contains bits net ip \<and> \<not> contains bits net broadcast) exceptions)"

fun py_is_private :: "ip_net \<Rightarrow> bool" where
  "py_is_private (IPv4Net ip p) =
     network_is_private 32 private_networks4 private_networks_exceptions4 ip p"
| "py_is_private (IPv6Net ip p) =
     network_is_private 128 private_networks6 private_networks_exceptions6 ip p"

definition py_ipaddress :: "ip_net ipaddress" where
  "py_ipaddress =
     \<lparr>IPv4Network = py_IPv4Network, IPv6Network = py_IPv6Network, is_private = py_is_private\<rparr>"


text \<open>
  A controller for the scenarios: it answers the URLs of a table with status 200 and a
  JSON object whose \<open>data\<close> field is the table's list, and refuses the connection for
  any other URL.
\<close>

definition controller :: "string dict list dict \<Rightarrow> http" where
  "controller table url auth =
     (case map_of table url of
        None \<Rightarrow> Inl ConnectionError
      | Some records \<Rightarrow> Inr \<lparr>status_code = 200, body = JsonObject (Some records)\<rparr>)"


section \<open>The report writers: \<open>export_to_excel\<close> and \<open>export_to_html\<close>\<close>

text \<open>
  The spreadsheet is modelled by the calls the code makes on the worksheet: a cell write
  is the row, the column, the text and the format. \<open>worksheet.write\<close> takes a string;
  handed a dictionary it raises \<open>TypeError\<close>, as XlsxWriter does for a type it does not
  support. The HTML file is the list of the strings written to it.
\<close>

datatype cell_format = header_format | base_format | wrap_format

type_synonym cell_write = "nat \<times> nat \<times> string \<times> cell_format"

definition worksheet_write :: "nat \<Rightarrow> nat \<Rightarrow> val \<Rightarrow> cell_format \<Rightarrow> exn + cell_write" where
  "worksheet_write row col v fmt =
     (case v of Str s \<Rightarrow> Inr (row, col, s, fmt) | Dict d \<Rightarrow> Inl TypeError)"

fun write_row :: "nat \<Rightarrow> nat \<Rightarrow> string list \<Rightarrow> cell_format \<Rightarrow> cell_write list" where
  "write_row row col [] fmt = []"
| "write_row row col (s # rest) fmt = (row, col, s, fmt) # write_row row (col + 1) rest fmt"

text \<open>\<open>data.get(key, "N/A")\<close> on a device record.\<close>

definition get_val :: "val dict \<Rightarrow> string \<Rightarrow> val" where
  "get_val data key = (case dict_get data key of None \<Rightarrow> Str ''N/A'' | Some v \<Rightarrow> v)"

text \<open>
  \<open>str.strip()\<close> removes the white space at both ends; the white-space characters
  below code point 256 are listed.
\<close>

definition is_space :: "char \<Rightarrow> bool" where
  "is_space c = ((of_char c :: int) \<in> set [9, 10, 11, 12, 13, 28, 29, 30, 31, 32, 133, 160])"

definition strip :: "string \<Rightarrow> string" where
  "strip s = rev (dropWhile is_space (rev (dropWhile is_space s)))"

fun join :: "string \<Rightarrow> string list \<Rightarrow> string" where
  "join sep [] = []"
| "join sep [s] = s"
| "join sep (s # rest) = s @ sep @ join sep rest"

text \<open>The loop \<open>for header in keys\<close> of one spreadsheet row.\<close>

fun write_keys :: "nat \<Rightarrow> nat \<Rightarrow> val dict \<Rightarrow> string list \<Rightarrow> exn + cell_write list" where
  "write_keys row col data [] = Inr []"
| "write_keys row col data (header # rest) =
     (case worksheet_write row col (get_val data header) base_format of
        Inl e \<Rightarrow> Inl e
      | Inr c \<Rightarrow>
          (case write_keys row (col + 1) data rest of
             Inl e \<Rightarrow> Inl e
           | Inr cs \<Rightarrow> Inr (c # cs)))"

text \<open>
  \<open>if data.get('interfaces'):\<close> is the truth value of the field: absent, an empty
  string and an empty dictionary are false. A non-empty string has no \<open>items()\<close>,
  \<open>keys()\<close> or \<open>values()\<close>: \<open>AttributeError\<close>.
\<close>

definition truthy_interfaces :: "val dict \<Rightarrow> exn + string dict option" where
  "truthy_interfaces data =
     (case dict_get data ''interfaces'' of
        None \<Rightarrow> Inr None
      | Some (Str s) \<Rightarrow> (if s = [] then Inr None else Inl AttributeError)
      | Some (Dict ifs) \<Rightarrow> (if ifs = [] then Inr None else Inr (Some ifs)))"

definition write_interfaces :: "nat \<Rightarrow> nat \<Rightarrow> val dict \<Rightarrow> exn + cell_write list" where
  "write_interfaces row col data =
     (case truthy_interfaces data of
        Inl e \<Rightarrow> Inl e
      | Inr None \<Rightarrow> Inr []
      | Inr (Some ifs) \<Rightarrow>
          Inr [(row, col, strip (concat (map (\<lambda>(interface, ip). interface @ [CHR 0x0A]) ifs)),
                wrap_format),
               (row, col + 1, strip (concat (map (\<lambda>(interface, ip). ip @ [CHR 0x0A]) ifs)),
                wrap_format)])"

fun excel_rows :: "nat \<Rightarrow> string list \<Rightarrow> val dict dict \<Rightarrow> exn + cell_write list" where
  "excel_rows row keys [] = Inr []"
| "excel_rows row keys ((device, data) # rest) =
     (case write_keys row 0 data keys of
        Inl e \<Rightarrow> Inl e
      | Inr key_cells \<Rightarrow>
          (case write_interfaces row (length keys) data of
             Inl e \<Rightarrow> Inl e
           | Inr interface_cells \<Rightarrow>
               (case excel_rows (row + 1) keys rest of
                  Inl e \<Rightarrow> Inl e
                | Inr cells \<Rightarrow> Inr (key_cells @ interface_cells @ cells))))"

definition export_to_excel :: "val dict dict \<Rightarrow> string list \<Rightarrow> exn + cell_write list" where
  "export_to_excel devices keys =
     (case excel_rows 1 keys devices of
        Inl e \<Rightarrow> Inl e
      | Inr cells \<Rightarrow>
          Inr (write_row 0 0 keys header_format @
               write_row 0 (length keys) [''interface-name'', ''interface-IP''] header_format @
               cells))"

text \<open>
  An f-string prints a string as it is; how it prints a dictionary (Python's \<open>repr\<close>)
  is the parameter \<open>repr\<close>.
\<close>

definition format_val :: "(string dict \<Rightarrow> string) \<Rightarrow> val \<Rightarrow> string" where
  "format_val repr v = (case v of Str s \<Rightarrow> s | Dict d \<Rightarrow> repr d)"

definition html_head :: string where
  "html_head = [CHR 0x0A] @ ''    <html>'' @ [CHR 0x0A] @ ''    <head>'' @ [CHR 0x0A] @
     ''        <title>Cisco Public IPs</title>'' @ [CHR 0x0A] @ ''    </head>'' @ [CHR 0x0A] @
     ''    <body>'' @ [CHR 0x0A] @ ''    <table border='' @ [CHR 0x27] @ ''1'' @ [CHR 0x27] @
     ''>'' @ [CHR 0x0A] @ ''        <thead>'' @ [CHR 0x0A] @ ''    ''"

definition html_tail :: string where
  "html_tail = [CHR 0x0A] @ ''        </tbody>'' @ [CHR 0x0A] @ ''    </table>'' @ [CHR 0x0A] @
     ''    </body>'' @ [CHR 0x0A] @ ''    </html>'' @ [CHR 0x0A] @ ''    ''"

definition html_header_columns :: "string list \<Rightarrow> string" where
  "html_header_columns keys =
     concat (map (\<lambda>key. ''<th>'' @ key @ ''</th>'') keys) @
     ''<th>interface-name</th><th>interface-IP</th></tr>'' @ [CHR 0x0D, CHR 0x09, CHR 0x09] @
     ''</thead>'' @ [CHR 0x0D, CHR 0x09, CHR 0x09] @ ''<tbody>''"

definition html_row :: "(string dict \<Rightarrow> string) \<Rightarrow> string list \<Rightarrow> val dict \<Rightarrow> string dict \<Rightarrow> string" where
  "html_row repr keys data ifs =
     [CHR 0x09, CHR 0x09, CHR 0x09] @ ''<tr>'' @
     concat (map (\<lambda>key. ''<td>'' @ format_val repr (get_val data key) @ ''</td>'') keys) @
     ''<td>'' @ join ''<br>'' (dict_keys ifs) @ ''</td><td>'' @
     join ''<br>'' (dict_values ifs) @ ''</td></tr>'' @ [CHR 0x0D]"

fun html_rows ::
  "(string dict \<Rightarrow> string) \<Rightarrow> string list \<Rightarrow> val dict dict \<Rightarrow> exn + string list" where
  "html_rows repr keys [] = Inr []"
| "html_rows repr keys ((device, data) # rest) =
     (case truthy_interfaces data of
        Inl e \<Rightarrow> Inl e
      | Inr None \<Rightarrow> html_rows repr keys rest
      | Inr (Some ifs) \<Rightarrow>
          (case html_rows repr keys rest of
             Inl e \<Rightarrow> Inl e
           | Inr rows \<Rightarrow> Inr (html_row repr keys data ifs # rows)))"

definition export_to_html ::
  "(string dict \<Rightarrow> string) \<Rightarrow> val dict dict \<Rightarrow> string list \<Rightarrow> exn + string list" where
  "export_to_html repr devices keys =
     (case html_rows repr keys devices of
        Inl e \<Rightarrow> Inl e
      | Inr rows \<Rightarrow>
          Inr ([html_head,
                [CHR 0x09, CHR 0x09] @ ''<tr>'' @ html_header_columns keys @ [CHR 0x0D]] @
               rows @ [html_tail]))"

text \<open>
  A device record as the enricher leaves it: \<open>'interfaces'\<close> is bound to a dictionary,
  and the requested keys are bound to strings or absent.
\<close>

definition enriched :: "string list \<Rightarrow> val dict \<Rightarrow> bool" where
  "enriched keys data =
     ((case dict_get data ''interfaces'' of Some (Dict ifs) \<Rightarrow> True | other \<Rightarrow> False) \<and>
      list_all (\<lambda>key. case get_val data key of Str s \<Rightarrow> True | Dict d \<Rightarrow> False) keys)"

definition interfaces_of :: "val dict \<Rightarrow> string dict" where
  "interfaces_of data = (case dict_get data ''interfaces'' of Some (Dict ifs) \<Rightarrow> ifs | other \<Rightarrow> [])"

definition cell_text :: "val dict \<Rightarrow> string \<Rightarrow> string" where
  "cell_text data key = (case get_val data key of Str s \<Rightarrow> s | Dict d \<Rightarrow> [])"


text \<open>
  The spreadsheet row of a device, as the spec words it: the requested key values in the
  configured order and, only if the device has any interface, the names joined by
  newlines in one cell and the addresses in the next.
\<close>

definition data_row :: "nat \<Rightarrow> string list \<Rightarrow> val dict \<Rightarrow> cell_write list" where
  "data_row row keys data =
     map (\<lambda>(col, key). (row, col, cell_text data key, base_format)) (enumerate 0 keys) @
     (if interfaces_of data = [] then []
      else [(row, length keys, strip (join [CHR 0x0A] (dict_keys (interfaces_of data)) @ [CHR 0x0A]),
             wrap_format),
            (row, length keys + 1,
             strip (join [CHR 0x0A] (dict_values (interfaces_of data)) @ [CHR 0x0A]), wrap_format)])"


section \<open>The credential store: \<open>encode_pass\<close>, \<open>decode_pass\<close> and \<open>get_creds\<close>\<close>

text \<open>
  URL-safe base64 as Python's \<open>base64\<close> module does it. The encoder takes three bytes
  to four characters of the alphabet and pads the last group with \<open>=\<close>. The decoder is
  the non-strict one of \<open>binascii.a2b_base64\<close>: it skips every character outside the
  alphabet (after \<open>urlsafe_b64decode\<close> has mapped \<open>-\<close> and \<open>_\<close> to the standard
  \<open>+\<close> and \<open>/\<close>, so all four are read), stops at a complete padding, and raises
  \<open>binascii.Error\<close> when the data characters do not fill their last group.
\<close>

definition b64_alphabet :: string where
  "b64_alphabet = ''ABCDEFGHIJKLMNOPQRSTUVWXYZabcdefghijklmnopqrstuvwxyz0123456789-_''"

definition b2a :: "nat \<Rightarrow> char" where
  "b2a n = b64_alphabet ! n"

definition a2b :: "char \<Rightarrow> nat option" where
  "a2b c =
     (let n = (of_char c :: nat) in
      if 65 \<le> n \<and> n \<le> 90 then Some (n - 65)
      else if 97 \<le> n \<and> n \<le> 122 then Some (n - 71)
      else if 48 \<le> n \<and> n \<le> 57 then Some (n + 4)
      else if c = CHR ''-'' \<or> c = CHR ''+'' then Some 62
      else if c = CHR ''_'' \<or> c = CHR ''/'' then Some 63
      else None)"

fun b64e :: "string \<Rightarrow> string" where
  "b64e [] = []"
| "b64e [a] =
     [b2a (of_char a div 4), b2a (of_char a mod 4 * 16), CHR ''='', CHR ''='']"
| "b64e [a, b] =
     [b2a (of_char a div 4), b2a (of_char a mod 4 * 16 + of_char b div 16),
      b2a (of_char b mod 16 * 4), CHR ''='']"
| "b64e (a # b # c # rest) =
     [b2a (of_char a div 4), b2a (of_char a mod 4 * 16 + of_char b div 16),
      b2a (of_char b mod 16 * 4 + of_char c div 64), b2a (of_char c mod 64)] @ b64e rest"

text \<open>
  The decoder's loop: \<open>quad_pos\<close> is the position in the group of four, \<open>leftchar\<close> the
  bits left over from the last character, \<open>pads\<close> the padding characters seen since.
\<close>

fun a2b_base64 :: "string \<Rightarrow> nat \<Rightarrow> nat \<Rightarrow> nat \<Rightarrow> string \<Rightarrow> exn + string" where
  "a2b_base64 [] quad_pos leftchar pads out =
     (if quad_pos \<noteq> 0 then Inl BinasciiError else Inr out)"
| "a2b_base64 (ch # rest) quad_pos leftchar pads out =
     (if ch = CHR ''='' then
        (if 2 \<le> quad_pos \<and> 4 \<le> quad_pos + (pads + 1) then Inr out
         else a2b_base64 rest quad_pos leftchar (if 2 \<le> quad_pos then pads + 1 else pads) out)
      else
        (case a2b ch of
           None \<Rightarrow> a2b_base64 rest quad_pos leftchar pads out
         | Some this_ch \<Rightarrow>
             if quad_pos = 0 then a2b_base64 rest 1 this_ch 0 out
             else if quad_pos = 1 then
               a2b_base64 rest 2 (this_ch mod 16) 0
                 (out @ [char_of (leftchar * 4 + this_ch div 16)])
             else if quad_pos = 2 then
               a2b_base64 rest 3 (this_ch mod 4) 0
                 (out @ [char_of (leftchar * 16 + this_ch div 4)])
             else
               a2b_base64 rest 0 0 0 (out @ [char_of (leftchar * 64 + this_ch)])))"

definition b64d :: "string \<Rightarrow> exn + string" where
  "b64d s = a2b_base64 s 0 0 0 []"

text \<open>
  \<open>zlib\<close> and the UTF-8 decoding of \<open>bytes.decode()\<close> are parameters of the model:
  \<open>zlib.compress(data, 9)\<close>, \<open>zlib.decompress\<close> (\<open>None\<close> for \<open>zlib.error\<close>) and
  \<open>decode\<close> (\<open>None\<close> for \<open>UnicodeDecodeError\<close>).
\<close>

record codecs =
  zlib_compress :: "string \<Rightarrow> string"
  zlib_decompress :: "string \<Rightarrow> string option"
  bytes_decode :: "string \<Rightarrow> string option"

definition encode_pass :: "codecs \<Rightarrow> string \<Rightarrow> string" where
  "encode_pass lib data = b64e (zlib_compress lib data)"

definition decode_pass :: "codecs \<Rightarrow> string \<Rightarrow> exn + string" where
  "decode_pass lib obscured =
     (case b64d obscured of
        Inl e \<Rightarrow> Inl e
      | Inr compressed \<Rightarrow>
          (case zlib_decompress lib compressed of
             None \<Rightarrow> Inl ZlibError
           | Some data \<Rightarrow> Inr data))"









text \<open>
  A stand-in for the parameters, to run the model: \<open>stored\<close> keeps the data as one
  stored block of the zlib format (header, length, data, Adler-32 checksum), which is
  what \<open>zlib.compress(data, 0)\<close> writes for data of fewer than 65536 bytes, and reads
  back exactly such a stream; its \<open>bytes_decode\<close> accepts ASCII text only. It stands
  for no more than that: \<open>zlib.compress(data, 9)\<close> writes other bytes, and the
  theorems hold for every value of the parameters.
\<close>

definition adler32 :: "string \<Rightarrow> int \<times> int" where
  "adler32 data =
     foldl (\<lambda>(a, b) c. ((a + of_char c) mod 65521, (b + (a + of_char c) mod 65521) mod 65521))
       (1, 0) data"

definition byte :: "int \<Rightarrow> char" where
  "byte n = char_of n"

definition stored_tail :: "string \<Rightarrow> string" where
  "stored_tail data =
     (case adler32 data of (a, b) \<Rightarrow> [byte (b div 256), byte b, byte (a div 256), byte a])"

definition stored_compress :: "string \<Rightarrow> string" where
  "stored_compress data =
     (let len = int (length data) in
      [byte 120, byte 1, byte 1, byte len, byte (len div 256),
       byte (65535 - len), byte ((65535 - len) div 256)] @ data @ stored_tail data)"

definition stored_decompress :: "string \<Rightarrow> string option" where
  "stored_decompress s =
     (let data = take (length s - 11) (drop 7 s) in
      if int (length data) < 65536 \<and> s = stored_compress data then Some data else None)"

definition stored :: codecs where
  "stored =
     \<lparr>zlib_compress = stored_compress, zlib_decompress = stored_decompress,
      bytes_decode = (\<lambda>data. if list_all (\<lambda>c. (of_char c :: int) < 128) data
                              then Some data else None)\<rparr>"


section \<open>Dictionaries: basic facts\<close>

lemma dict_get_empty [simp]: "dict_get [] k = None"
  by (simp add: dict_get_def)

lemma dict_keys_empty [simp]: "dict_keys [] = []"
  by (simp add: dict_keys_def)

lemma dict_get_set: "dict_get (dict_set d k v) k' = (if k' = k then Some v else dict_get d k')"
  by (simp add: dict_get_def dict_set_def update_conv')

lemma dict_keys_set: "set (dict_keys (dict_set d k v)) = insert k (set (dict_keys d))"
  using dom_update [of k v d] by (simp add: dict_keys_def dict_set_def)

lemma dict_distinct_set: "distinct (dict_keys d) \<Longrightarrow> distinct (dict_keys (dict_set d k v))"
  by (simp add: dict_keys_def dict_set_def distinct_update)

lemma dict_get_None_iff: "dict_get d k = None \<longleftrightarrow> k \<notin> set (dict_keys d)"
  by (simp add: dict_get_def dict_keys_def map_of_eq_None_iff)

lemma dict_index_Inr_iff: "dict_index d k = Inr v \<longleftrightarrow> dict_get d k = Some v"
  by (simp add: dict_index_def dict_get_def split: option.splits)

lemma dict_index_Inl_iff: "dict_index d k = Inl e \<longleftrightarrow> dict_get d k = None \<and> e = KeyError k"
  by (auto simp: dict_index_def dict_get_def split: option.splits)


section \<open>The device formatter: proofs\<close>

lemma device_data_fold_get:
  "dict_get (foldl (\<lambda>d key. dict_set d key (f key)) acc keys) k =
     (if k \<in> set keys then Some (f k) else dict_get acc k)"
  by (induction keys arbitrary: acc) (auto simp: dict_get_set)

lemma device_data_fold_keys:
  "set (dict_keys (foldl (\<lambda>d key. dict_set d key (f key)) acc keys)) =
     set (dict_keys acc) \<union> set keys"
  by (induction keys arbitrary: acc) (auto simp: dict_keys_set)

lemma device_data_fold_distinct:
  "distinct (dict_keys acc) \<Longrightarrow>
   distinct (dict_keys (foldl (\<lambda>d key. dict_set d key (f key)) acc keys))"
  by (induction keys arbitrary: acc) (auto simp: dict_distinct_set)

lemma device_data_get:
  "dict_get (device_data device keys) k =
     (if k \<in> set keys then Some (Str (get_default device k ''N/A'')) else None)"
  by (simp add: device_data_def device_data_fold_get)

lemma device_data_keys: "set (dict_keys (device_data device keys)) = set keys"
  by (simp add: device_data_def device_data_fold_keys)

lemma device_data_distinct: "distinct (dict_keys (device_data device keys))"
  by (simp add: device_data_def device_data_fold_distinct)

lemma format_device_loop_total:
  "list_all (\<lambda>d. dict_get d ''system-ip'' \<noteq> None) raw \<Longrightarrow>
   \<exists>devices. format_device_loop acc raw keys = Inr devices"
proof (induction raw arbitrary: acc)
  case Nil
  show ?case by simp
next
  case (Cons device rest)
  from Cons.prems obtain sip where sip: "dict_get device ''system-ip'' = Some sip"
    by auto
  then have "dict_index device ''system-ip'' = Inr sip"
    by (simp add: dict_index_Inr_iff)
  moreover from Cons.prems have "list_all (\<lambda>d. dict_get d ''system-ip'' \<noteq> None) rest"
    by simp
  ultimately show ?case
    using Cons.IH by simp
qed

lemma format_device_loop_get:
  "format_device_loop acc raw keys = Inr devices \<Longrightarrow>
   dict_get devices sip =
     (case with_system_ip sip raw of
        [] \<Rightarrow> dict_get acc sip
      | d # ds \<Rightarrow> Some (device_data (last (d # ds)) keys))"
proof (induction raw arbitrary: acc)
  case Nil
  then show ?case by (simp add: with_system_ip_def)
next
  case (Cons device rest)
  from Cons.prems obtain s where s: "dict_index device ''system-ip'' = Inr s"
    and run: "format_device_loop (dict_set acc s (device_data device keys)) rest keys = Inr devices"
    by (auto split: sum.splits)
  from s have gs: "dict_get device ''system-ip'' = Some s"
    by (simp add: dict_index_Inr_iff)
  note IH = Cons.IH [OF run]
  show ?case
  proof (cases "with_system_ip sip rest")
    case Nil
    with IH gs show ?thesis
      by (auto simp: with_system_ip_def dict_get_set)
  next
    case (Cons d ds)
    with IH gs show ?thesis
      by (auto simp: with_system_ip_def)
  qed
qed

lemma format_device_loop_distinct:
  "format_device_loop acc raw keys = Inr devices \<Longrightarrow> distinct (dict_keys acc) \<Longrightarrow>
   distinct (dict_keys devices)"
proof (induction raw arbitrary: acc)
  case Nil
  then show ?case by simp
next
  case (Cons device rest)
  then show ?case
    by (auto split: sum.splits simp: dict_distinct_set)
qed

text \<open>
  C6. When every raw device carries a \<open>system-ip\<close> field, \<open>format_device_data\<close>
  returns a dictionary with distinct keys; a system IP is a key exactly when some raw
  device carries it; the record stored under it has exactly the requested keys, each
  bound to the value of that field in the last raw device with this system IP, or to
  \<open>"N/A"\<close> when that device lacks the field.
\<close>

theorem format_device_data_projects:
  assumes "list_all (\<lambda>d. dict_get d ''system-ip'' \<noteq> None) raw"
  shows "\<exists>devices. format_device_data raw keys = Inr devices
     \<and> distinct (dict_keys devices)
     \<and> (\<forall>sip. (sip \<in> set (dict_keys devices)) = (with_system_ip sip raw \<noteq> []))
     \<and> (\<forall>sip. with_system_ip sip raw \<noteq> [] \<longrightarrow>
          (\<exists>data. dict_get devices sip = Some data
             \<and> distinct (dict_keys data)
             \<and> set (dict_keys data) = set keys
             \<and> (\<forall>k \<in> set keys. dict_get data k =
                   Some (Str (get_default (last (with_system_ip sip raw)) k ''N/A'')))))"
proof -
  from format_device_loop_total [OF assms] obtain devices
    where run: "format_device_loop [] raw keys = Inr devices"
    by blast
  have get: "dict_get devices sip =
      (case with_system_ip sip raw of [] \<Rightarrow> None
       | d # ds \<Rightarrow> Some (device_data (last (d # ds)) keys))" for sip
    using format_device_loop_get [OF run, of sip]
    by (cases "with_system_ip sip raw") simp_all
  have dist: "distinct (dict_keys devices)"
    using format_device_loop_distinct [OF run] by simp
  have keys: "(sip \<in> set (dict_keys devices)) = (with_system_ip sip raw \<noteq> [])" for sip
    using get [of sip] dict_get_None_iff [of devices sip]
    by (cases "with_system_ip sip raw") auto
  have rec: "\<exists>data. dict_get devices sip = Some data
             \<and> distinct (dict_keys data)
             \<and> set (dict_keys data) = set keys
             \<and> (\<forall>k \<in> set keys. dict_get data k =
                   Some (Str (get_default (last (with_system_ip sip raw)) k ''N/A'')))"
    if "with_system_ip sip raw \<noteq> []" for sip
  proof -
    from that obtain d ds where ds: "with_system_ip sip raw = d # ds"
      by (cases "with_system_ip sip raw") auto
    then have "dict_get devices sip = Some (device_data (last (d # ds)) keys)"
      using get [of sip] by simp
    then show ?thesis
      using ds by (simp add: device_data_distinct device_data_keys device_data_get)
  qed
  show ?thesis
    unfolding format_device_data_def using run dist keys rec by blast
qed

theorem format_device_data_projects_witness:
  "format_device_data
     [[(''system-ip'', ''1.1.1.1''), (''host-name'', ''r1''), (''uuid'', ''x'')],
      [(''system-ip'', ''2.2.2.2''), (''site-id'', ''20'')],
      [(''system-ip'', ''1.1.1.1''), (''host-name'', ''r1b'')]]
     [''system-ip'', ''host-name'', ''site-id'']
   = Inr [(''1.1.1.1'', [(''system-ip'', Str ''1.1.1.1''), (''host-name'', Str ''r1b''),
                         (''site-id'', Str ''N/A'')]),
          (''2.2.2.2'', [(''system-ip'', Str ''2.2.2.2''), (''host-name'', Str ''N/A''),
                         (''site-id'', Str ''20'')])]
   \<and> with_system_ip ''1.1.1.1''
        [[(''system-ip'', ''1.1.1.1''), (''host-name'', ''r1''), (''uuid'', ''x'')],
         [(''system-ip'', ''2.2.2.2''), (''site-id'', ''20'')],
         [(''system-ip'', ''1.1.1.1''), (''host-name'', ''r1b'')]]
      = [[(''system-ip'', ''1.1.1.1''), (''host-name'', ''r1''), (''uuid'', ''x'')],
         [(''system-ip'', ''1.1.1.1''), (''host-name'', ''r1b'')]]"
  using format_device_data_projects
    [of "[[(''system-ip'', ''1.1.1.1''), (''host-name'', ''r1''), (''uuid'', ''x'')],
          [(''system-ip'', ''2.2.2.2''), (''site-id'', ''20'')],
          [(''system-ip'', ''1.1.1.1''), (''host-name'', ''r1b'')]]"
        "[''system-ip'', ''host-name'', ''site-id'']"]
  by (simp add: format_device_data_def dict_index_def dict_set_def dict_get_def
      device_data_def get_default_def with_system_ip_def)


section \<open>The HTTP fetcher: proofs\<close>





section \<open>The interface enricher: the inner loop\<close>

lemma dict_keys_set_list:
  "dict_keys (dict_set d k v) = (if k \<in> set (dict_keys d) then dict_keys d else dict_keys d @ [k])"
  by (simp add: dict_keys_def dict_set_def update_keys)

lemma is_ipv4_iff: "is_ipv4 lib a = (ip_network lib a \<noteq> Inl ValueError)"
  by (auto simp: is_ipv4_def ip_network_def split: option.splits sum.splits)

text \<open>One step of the inner loop, by the kind of record.\<close>

lemma interface_loop_unreadable:
  "\<not> readable ign r \<Longrightarrow>
   interface_loop lib ign ifs (r # rest) = Inl (KeyError ''ifname'') \<or>
   interface_loop lib ign ifs (r # rest) = Inl (KeyError ''ip-address'')"
  by (auto simp: readable_def dict_index_def dict_get_def split: option.splits)

lemma interface_loop_retained:
  "retained lib ign r \<Longrightarrow>
   \<exists>n a. dict_get r ''ifname'' = Some n \<and> dict_get r ''ip-address'' = Some a \<and>
     interface_loop lib ign ifs (r # rest) = interface_loop lib ign (dict_set ifs n a) rest"
  by (auto simp: retained_def dict_index_def dict_get_def is_ipv4_def
      split: option.splits sum.splits)

lemma interface_loop_skipped:
  "readable ign r \<Longrightarrow> \<not> retained lib ign r \<Longrightarrow>
   interface_loop lib ign ifs (r # rest) = interface_loop lib ign ifs rest"
  by (auto simp: readable_def retained_def dict_index_def dict_get_def is_ipv4_def
      split: option.splits sum.splits)

declare interface_loop.simps(2) [simp del]

lemma interface_loop_returns_iff:
  "(\<exists>ifs'. interface_loop lib ign ifs interfaces = Inr ifs') = list_all (readable ign) interfaces"
proof (induction interfaces arbitrary: ifs)
  case Nil
  show ?case by simp
next
  case (Cons r rest)
  show ?case
  proof (cases "readable ign r")
    case False
    then show ?thesis
      using interface_loop_unreadable [of ign r lib ifs rest] by auto
  next
    case True
    show ?thesis
    proof (cases "retained lib ign r")
      case True
      then obtain n a where
        "interface_loop lib ign ifs (r # rest) = interface_loop lib ign (dict_set ifs n a) rest"
        using interface_loop_retained by blast
      then show ?thesis
        using Cons.IH [of "dict_set ifs n a"] \<open>readable ign r\<close> by simp
    next
      case False
      then show ?thesis
        using Cons.IH [of ifs] interface_loop_skipped [OF True False] True by simp
    qed
  qed
qed

lemma interface_loop_raises:
  "\<not> list_all (readable ign) interfaces \<Longrightarrow>
   interface_loop lib ign ifs interfaces = Inl (KeyError ''ifname'') \<or>
   interface_loop lib ign ifs interfaces = Inl (KeyError ''ip-address'')"
proof (induction interfaces arbitrary: ifs)
  case Nil
  then show ?case by simp
next
  case (Cons r rest)
  show ?case
  proof (cases "readable ign r")
    case False
    then show ?thesis by (rule interface_loop_unreadable)
  next
    case True
    with Cons.prems have rest: "\<not> list_all (readable ign) rest" by simp
    show ?thesis
    proof (cases "retained lib ign r")
      case True
      then obtain n a where
        "interface_loop lib ign ifs (r # rest) = interface_loop lib ign (dict_set ifs n a) rest"
        using interface_loop_retained by blast
      then show ?thesis using Cons.IH [OF rest, of "dict_set ifs n a"] by simp
    next
      case False
      then show ?thesis
        using Cons.IH [OF rest, of ifs] interface_loop_skipped [OF True False] by simp
    qed
  qed
qed

lemma interface_loop_get:
  "interface_loop lib ign ifs interfaces = Inr ifs' \<Longrightarrow>
   dict_get ifs' n =
     (case named lib ign n interfaces of
        [] \<Rightarrow> dict_get ifs n
      | r # rs \<Rightarrow> dict_get (last (r # rs)) ''ip-address'')"
proof (induction interfaces arbitrary: ifs)
  case Nil
  then show ?case by (simp add: named_def)
next
  case (Cons r rest)
  have rd: "readable ign r"
    using Cons.prems interface_loop_returns_iff [of lib ign ifs "r # rest"] by auto
  show ?case
  proof (cases "retained lib ign r")
    case False
    then have "interface_loop lib ign ifs rest = Inr ifs'"
      using Cons.prems interface_loop_skipped [OF rd False] by simp
    from Cons.IH [OF this] False show ?thesis by (simp add: named_def)
  next
    case True
    then obtain m a where m: "dict_get r ''ifname'' = Some m"
      and a: "dict_get r ''ip-address'' = Some a"
      and step: "interface_loop lib ign ifs (r # rest) = interface_loop lib ign (dict_set ifs m a) rest"
      using interface_loop_retained by blast
    from step Cons.prems have "interface_loop lib ign (dict_set ifs m a) rest = Inr ifs'"
      by simp
    note IH = Cons.IH [OF this]
    show ?thesis
    proof (cases "named lib ign n rest")
      case Nil
      with IH True m a show ?thesis
        by (auto simp: named_def dict_get_set)
    next
      case (Cons r' rs')
      with IH True m a show ?thesis
        by (auto simp: named_def)
    qed
  qed
qed

lemma interface_loop_distinct:
  "interface_loop lib ign ifs interfaces = Inr ifs' \<Longrightarrow> distinct (dict_keys ifs) \<Longrightarrow>
   distinct (dict_keys ifs')"
proof (induction interfaces arbitrary: ifs)
  case Nil
  then show ?case by simp
next
  case (Cons r rest)
  have rd: "readable ign r"
    using Cons.prems(1) interface_loop_returns_iff [of lib ign ifs "r # rest"] by auto
  show ?case
  proof (cases "retained lib ign r")
    case False
    then show ?thesis
      using Cons interface_loop_skipped [OF rd False] by simp
  next
    case True
    then obtain m a where
      "interface_loop lib ign ifs (r # rest) = interface_loop lib ign (dict_set ifs m a) rest"
      using interface_loop_retained by blast
    then show ?thesis
      using Cons.IH [of "dict_set ifs m a"] Cons.prems by (simp add: dict_distinct_set)
  qed
qed


section \<open>The interface enricher: the outer loop\<close>

declare device_loop.simps(2) [simp del]

lemma dict_index_key: "dict_index d k = Inr v \<Longrightarrow> k \<in> set (dict_keys d)"
  using dict_get_None_iff [of d k] by (auto simp: dict_index_Inr_iff)

lemma dict_index_present: "k \<in> set (dict_keys d) \<Longrightarrow> \<exists>v. dict_index d k = Inr v"
  using dict_get_None_iff [of d k] by (cases "dict_get d k") (auto simp: dict_index_Inr_iff)

text \<open>One step of the outer loop.\<close>

lemma device_loop_step:
  "fetched requests_get auth base device = Inr interfaces \<Longrightarrow>
   dict_index devices device = Inr data \<Longrightarrow>
   interface_loop lib ign [] interfaces = Inr ifs \<Longrightarrow>
   device_loop requests_get lib auth base ign devices (device # rest) =
     device_loop requests_get lib auth base ign
       (dict_set devices device (dict_set data ''interfaces'' (Dict ifs))) rest"
  by (simp add: device_loop.simps(2) fetched_def)

lemma device_loop_stepD:
  assumes "device_loop requests_get lib auth base ign devices (device # rest) = Inr devices'"
  obtains interfaces data ifs where
    "fetched requests_get auth base device = Inr interfaces"
    "dict_index devices device = Inr data"
    "interface_loop lib ign [] interfaces = Inr ifs"
    "device_loop requests_get lib auth base ign
       (dict_set devices device (dict_set data ''interfaces'' (Dict ifs))) rest = Inr devices'"
  using assms by (auto simp: device_loop.simps(2) fetched_def split: sum.splits)

lemma device_loop_keys:
  "device_loop requests_get lib auth base ign devices ks = Inr devices' \<Longrightarrow>
   dict_keys devices' = dict_keys devices"
proof (induction ks arbitrary: devices)
  case Nil
  then show ?case by simp
next
  case (Cons device rest)
  from Cons.prems obtain interfaces data ifs where
    idx: "dict_index devices device = Inr data" and
    run: "device_loop requests_get lib auth base ign
       (dict_set devices device (dict_set data ''interfaces'' (Dict ifs))) rest = Inr devices'"
    by (rule device_loop_stepD)
  from Cons.IH [OF run] dict_index_key [OF idx] show ?case
    by (simp add: dict_keys_set_list)
qed

lemma device_loop_get:
  "device_loop requests_get lib auth base ign devices ks = Inr devices' \<Longrightarrow> distinct ks \<Longrightarrow>
   (if d \<in> set ks
    then \<exists>data interfaces ifs.
           dict_get devices d = Some data \<and>
           fetched requests_get auth base d = Inr interfaces \<and>
           interface_loop lib ign [] interfaces = Inr ifs \<and>
           dict_get devices' d = Some (dict_set data ''interfaces'' (Dict ifs))
    else dict_get devices' d = dict_get devices d)"
proof (induction ks arbitrary: devices)
  case Nil
  then show ?case by simp
next
  case (Cons device rest)
  from Cons.prems(1) obtain interfaces data ifs where
    f: "fetched requests_get auth base device = Inr interfaces" and
    idx: "dict_index devices device = Inr data" and
    il: "interface_loop lib ign [] interfaces = Inr ifs" and
    run: "device_loop requests_get lib auth base ign
       (dict_set devices device (dict_set data ''interfaces'' (Dict ifs))) rest = Inr devices'"
    by (rule device_loop_stepD)
  from Cons.prems(2) have dist: "distinct rest" and notin: "device \<notin> set rest"
    by simp_all
  note IH = Cons.IH [OF run dist]
  show ?case
  proof (cases "d = device")
    case True
    with IH notin f idx il show ?thesis
      by (auto simp: dict_get_set dict_index_Inr_iff)
  next
    case False
    with IH show ?thesis
      by (auto simp: dict_get_set)
  qed
qed

lemma device_loop_returns:
  "set ks \<subseteq> set (dict_keys devices) \<Longrightarrow>
   list_all (\<lambda>d. case fetched requests_get auth base d of
                    Inl e \<Rightarrow> False
                  | Inr interfaces \<Rightarrow> list_all (readable ign) interfaces) ks \<Longrightarrow>
   \<exists>devices'. device_loop requests_get lib auth base ign devices ks = Inr devices'"
proof (induction ks arbitrary: devices)
  case Nil
  show ?case by simp
next
  case (Cons device rest)
  from Cons.prems(2) obtain interfaces where
    f: "fetched requests_get auth base device = Inr interfaces" and
    rd: "list_all (readable ign) interfaces"
    by (auto split: sum.splits)
  from rd obtain ifs where il: "interface_loop lib ign [] interfaces = Inr ifs"
    using interface_loop_returns_iff [of lib ign "[]" interfaces] by auto
  from Cons.prems(1) obtain data where idx: "dict_index devices device = Inr data"
    using dict_index_present [of device devices] by auto
  let ?devices1 = "dict_set devices device (dict_set data ''interfaces'' (Dict ifs))"
  have "set rest \<subseteq> set (dict_keys ?devices1)"
    using Cons.prems(1) by (auto simp: dict_keys_set)
  moreover from Cons.prems(2) have
    "list_all (\<lambda>d. case fetched requests_get auth base d of
                    Inl e \<Rightarrow> False
                  | Inr interfaces \<Rightarrow> list_all (readable ign) interfaces) rest"
    by simp
  ultimately obtain devices' where
    "device_loop requests_get lib auth base ign ?devices1 rest = Inr devices'"
    using Cons.IH by blast
  then show ?case
    using device_loop_step [OF f idx il] by simp
qed

lemma device_loop_raises:
  "set ks \<subseteq> set (dict_keys devices) \<Longrightarrow>
   list_all (\<lambda>d. case fetched requests_get auth base d of
                    Inl e \<Rightarrow> False | Inr interfaces \<Rightarrow> True) ks \<Longrightarrow>
   list_ex (\<lambda>d. case fetched requests_get auth base d of
                    Inl e \<Rightarrow> False
                  | Inr interfaces \<Rightarrow> \<not> list_all (readable ign) interfaces) ks \<Longrightarrow>
   device_loop requests_get lib auth base ign devices ks = Inl (KeyError ''ifname'') \<or>
   device_loop requests_get lib auth base ign devices ks = Inl (KeyError ''ip-address'')"
proof (induction ks arbitrary: devices)
  case Nil
  then show ?case by simp
next
  case (Cons device rest)
  from Cons.prems(2) obtain interfaces where
    f: "fetched requests_get auth base device = Inr interfaces"
    by (auto split: sum.splits)
  from Cons.prems(1) obtain data where idx: "dict_index devices device = Inr data"
    using dict_index_present [of device devices] by auto
  show ?case
  proof (cases "list_all (readable ign) interfaces")
    case False
    from interface_loop_raises [OF False, of lib "[]"] f idx show ?thesis
      by (auto simp: device_loop.simps(2) fetched_def)
  next
    case True
    then obtain ifs where il: "interface_loop lib ign [] interfaces = Inr ifs"
      using interface_loop_returns_iff [of lib ign "[]" interfaces] by auto
    let ?devices1 = "dict_set devices device (dict_set data ''interfaces'' (Dict ifs))"
    have 1: "set rest \<subseteq> set (dict_keys ?devices1)"
      using Cons.prems(1) by (auto simp: dict_keys_set)
    have 2: "list_all (\<lambda>d. case fetched requests_get auth base d of
                    Inl e \<Rightarrow> False | Inr interfaces \<Rightarrow> True) rest"
      using Cons.prems(2) by simp
    have 3: "list_ex (\<lambda>d. case fetched requests_get auth base d of
                    Inl e \<Rightarrow> False
                  | Inr interfaces \<Rightarrow> \<not> list_all (readable ign) interfaces) rest"
      using Cons.prems(3) f True by simp
    from Cons.IH [OF 1 2 3] show ?thesis
      using device_loop_step [OF f idx il] by simp
  qed
qed


section \<open>The interface enricher: what the output holds\<close>

lemma dict_all_None: "(\<And>k. dict_get d k = None) \<Longrightarrow> d = []"
proof (cases d)
  case Nil
  then show ?thesis by simp
next
  case (Cons p ps)
  assume "\<And>k. dict_get d k = None"
  from this [of "fst p"] Cons show ?thesis
    by (cases p) (simp add: dict_get_def)
qed

lemma dict_get_in_values: "dict_get d k = Some v \<Longrightarrow> v \<in> set (dict_values d)"
  by (auto simp: dict_get_def dict_values_def dest: map_of_SomeD intro: rev_image_eqI)

lemma dict_values_get:
  "v \<in> set (dict_values d) \<Longrightarrow> distinct (dict_keys d) \<Longrightarrow> \<exists>k. dict_get d k = Some v"
  by (auto simp: dict_get_def dict_values_def dict_keys_def)

lemma named_last:
  "named lib ign n interfaces = r # rs \<Longrightarrow>
   last (r # rs) \<in> set interfaces \<and> retained lib ign (last (r # rs)) \<and>
   dict_get (last (r # rs)) ''ifname'' = Some n"
proof -
  assume a: "named lib ign n interfaces = r # rs"
  have "last (r # rs) \<in> set (named lib ign n interfaces)"
    unfolding a by (rule last_in_set) simp
  then show ?thesis by (simp add: named_def)
qed

text \<open>Every entry of the interfaces dictionary comes from a record that passed the filters.\<close>

lemma interface_loop_entry:
  assumes "interface_loop lib ign [] interfaces = Inr ifs" and "dict_get ifs n = Some a"
  shows "\<exists>r \<in> set interfaces. retained lib ign r \<and> dict_get r ''ifname'' = Some n
           \<and> dict_get r ''ip-address'' = Some a"
proof (cases "named lib ign n interfaces")
  case Nil
  with interface_loop_get [OF assms(1), of n] assms(2) show ?thesis by simp
next
  case (Cons r rs)
  with interface_loop_get [OF assms(1), of n] assms(2)
  have "dict_get (last (r # rs)) ''ip-address'' = Some a" by simp
  with named_last [OF Cons] show ?thesis by blast
qed

lemma interface_loop_none_retained:
  assumes "interface_loop lib ign [] interfaces = Inr ifs"
    and "\<not> list_ex (retained lib ign) interfaces"
  shows "ifs = []"
proof (rule dict_all_None)
  fix k
  show "dict_get ifs k = None"
  proof (cases "dict_get ifs k")
    case None
    then show ?thesis .
  next
    case (Some a)
    from interface_loop_entry [OF assms(1) Some] assms(2) show ?thesis
      by (auto simp: list_ex_iff)
  qed
qed

lemma retained_public:
  "retained lib ign r \<Longrightarrow> dict_get r ''ifname'' = Some n \<Longrightarrow> dict_get r ''ip-address'' = Some a \<Longrightarrow>
   n \<notin> set ign \<and> (\<exists>net. ip_network lib a = Inr net \<and> \<not> is_private lib net)"
  by (auto simp: retained_def split: sum.splits)

lemma retained_readable: "retained lib ign r \<Longrightarrow> readable ign r"
  by (auto simp: retained_def readable_def split: option.splits)

text \<open>
  The invariant of the enricher's output: the names are not ignored, and the addresses are
  accepted by \<open>ip_network\<close> as networks that are not private.
\<close>

lemma add_interface_info_invariant:
  assumes "add_interface_info requests_get lib devices auth base ign = Inr devices'"
    and "distinct (dict_keys devices)"
    and "dict_get devices' d = Some data'"
    and "dict_get data' ''interfaces'' = Some (Dict ifs)"
    and "dict_get ifs n = Some a"
  shows "n \<notin> set ign \<and> (\<exists>net. ip_network lib a = Inr net \<and> \<not> is_private lib net)"
proof -
  from assms(1) have run:
    "device_loop requests_get lib auth base ign devices (dict_keys devices) = Inr devices'"
    by (simp add: add_interface_info_def)
  have "d \<in> set (dict_keys devices)"
    using device_loop_keys [OF run] assms(3) dict_get_None_iff [of devices' d] by auto
  with device_loop_get [OF run assms(2), of d] assms(3) obtain data interfaces ifs0 where
    il: "interface_loop lib ign [] interfaces = Inr ifs0" and
    d': "data' = dict_set data ''interfaces'' (Dict ifs0)"
    by auto
  from d' assms(4) have "ifs0 = ifs" by (simp add: dict_get_set)
  with il assms(5) interface_loop_entry [of lib ign interfaces ifs n a] retained_public [of lib ign _ n a]
  show ?thesis by blast
qed


section \<open>The interface enricher: the claims\<close>

text \<open>
  C9. When \<open>add_interface_info\<close> returns, the devices are the same keys in the same
  order; every device's record binds \<open>'interfaces'\<close> to a dictionary (empty when no
  fetched record passes the filters, so also when none is fetched) and binds every other
  key as before.
\<close>

theorem add_interface_info_frame:
  assumes "add_interface_info requests_get lib devices auth base ign = Inr devices'"
    and "distinct (dict_keys devices)"
  shows "dict_keys devices' = dict_keys devices \<and>
    (\<forall>d data. dict_get devices d = Some data \<longrightarrow>
       (\<exists>data' ifs interfaces.
          dict_get devices' d = Some data' \<and>
          fetched requests_get auth base d = Inr interfaces \<and>
          dict_get data' ''interfaces'' = Some (Dict ifs) \<and>
          (\<forall>k. k \<noteq> ''interfaces'' \<longrightarrow> dict_get data' k = dict_get data k) \<and>
          (\<not> list_ex (retained lib ign) interfaces \<longrightarrow> ifs = [])))"
proof -
  from assms(1) have run:
    "device_loop requests_get lib auth base ign devices (dict_keys devices) = Inr devices'"
    by (simp add: add_interface_info_def)
  have keys: "dict_keys devices' = dict_keys devices"
    by (rule device_loop_keys [OF run])
  have rec: "\<exists>data' ifs interfaces.
          dict_get devices' d = Some data' \<and>
          fetched requests_get auth base d = Inr interfaces \<and>
          dict_get data' ''interfaces'' = Some (Dict ifs) \<and>
          (\<forall>k. k \<noteq> ''interfaces'' \<longrightarrow> dict_get data' k = dict_get data k) \<and>
          (\<not> list_ex (retained lib ign) interfaces \<longrightarrow> ifs = [])"
    if "dict_get devices d = Some data" for d data
  proof -
    from that have "d \<in> set (dict_keys devices)"
      using dict_get_None_iff [of devices d] by auto
    with device_loop_get [OF run assms(2), of d] that obtain interfaces ifs where
      f: "fetched requests_get auth base d = Inr interfaces" and
      il: "interface_loop lib ign [] interfaces = Inr ifs" and
      d': "dict_get devices' d = Some (dict_set data ''interfaces'' (Dict ifs))"
      by auto
    have "\<not> list_ex (retained lib ign) interfaces \<longrightarrow> ifs = []"
      using interface_loop_none_retained [OF il] by blast
    with f d' show ?thesis
      by (auto simp: dict_get_set)
  qed
  from keys rec show ?thesis by blast
qed

theorem add_interface_info_frame_witness:
  "add_interface_info
     (controller [(''https://vmanage:8443/dataservice/device/interface?deviceId=1.1.1.1'',
        [[(''ifname'', ''ge0/1''), (''ip-address'', ''10.0.0.1'')]])])
     py_ipaddress
     [(''1.1.1.1'', [(''system-ip'', Str ''1.1.1.1''), (''host-name'', Str ''r1'')]),
      (''2.2.2.2'', [(''system-ip'', Str ''2.2.2.2''), (''host-name'', Str ''r2'')])]
     (''admin'', ''secret'')
     ''https://vmanage:8443/dataservice/device/interface?deviceId=''
     [''ge0/0.22'']
   = Inr [(''1.1.1.1'', [(''system-ip'', Str ''1.1.1.1''), (''host-name'', Str ''r1''),
                          (''interfaces'', Dict [])]),
          (''2.2.2.2'', [(''system-ip'', Str ''2.2.2.2''), (''host-name'', Str ''r2''),
                          (''interfaces'', Dict [])])]
   \<and> dict_keys [(''1.1.1.1'', [(''system-ip'', Str ''1.1.1.1''), (''host-name'', Str ''r1''),
                          (''interfaces'', Dict [])]),
          (''2.2.2.2'', [(''system-ip'', Str ''2.2.2.2''), (''host-name'', Str ''r2''),
                          (''interfaces'', Dict [])])] = [''1.1.1.1'', ''2.2.2.2'']"
proof -
  let ?http = "controller [(''https://vmanage:8443/dataservice/device/interface?deviceId=1.1.1.1'',
        [[(''ifname'', ''ge0/1''), (''ip-address'', ''10.0.0.1'')]])]"
  let ?devices = "[(''1.1.1.1'', [(''system-ip'', Str ''1.1.1.1''), (''host-name'', Str ''r1'')]),
      (''2.2.2.2'', [(''system-ip'', Str ''2.2.2.2''), (''host-name'', Str ''r2'')])]"
  let ?out = "[(''1.1.1.1'', [(''system-ip'', Str ''1.1.1.1''), (''host-name'', Str ''r1''),
                          (''interfaces'', Dict [])]),
          (''2.2.2.2'', [(''system-ip'', Str ''2.2.2.2''), (''host-name'', Str ''r2''),
                          (''interfaces'', Dict [])])]"
  have run: "add_interface_info ?http py_ipaddress ?devices (''admin'', ''secret'')
     ''https://vmanage:8443/dataservice/device/interface?deviceId='' [''ge0/0.22''] = Inr ?out"
    by code_simp
  have dist: "distinct (dict_keys ?devices)"
    by (simp add: dict_keys_def)
  from add_interface_info_frame [OF run dist] have "dict_keys ?out = dict_keys ?devices"
    by blast
  then have "dict_keys ?out = [''1.1.1.1'', ''2.2.2.2'']"
    by (simp add: dict_keys_def)
  with run show ?thesis by simp
qed


text \<open>Every entry of a device's dictionary is the name and the address of a fetched record.\<close>

lemma add_interface_info_entry:
  assumes "add_interface_info requests_get lib devices auth base ign = Inr devices'"
    and "distinct (dict_keys devices)"
    and "dict_get devices' d = Some data'"
    and "dict_get data' ''interfaces'' = Some (Dict ifs)"
    and "dict_get ifs n = Some a"
  shows "\<exists>interfaces r. fetched requests_get auth base d = Inr interfaces \<and> r \<in> set interfaces
      \<and> retained lib ign r \<and> dict_get r ''ifname'' = Some n \<and> dict_get r ''ip-address'' = Some a"
proof -
  from assms(1) have run:
    "device_loop requests_get lib auth base ign devices (dict_keys devices) = Inr devices'"
    by (simp add: add_interface_info_def)
  have "d \<in> set (dict_keys devices)"
    using device_loop_keys [OF run] assms(3) dict_get_None_iff [of devices' d] by auto
  with device_loop_get [OF run assms(2), of d] assms(3) obtain data interfaces ifs0 where
    f: "fetched requests_get auth base d = Inr interfaces" and
    il: "interface_loop lib ign [] interfaces = Inr ifs0" and
    d': "data' = dict_set data ''interfaces'' (Dict ifs0)"
    by auto
  from d' assms(4) have "ifs0 = ifs" by (simp add: dict_get_set)
  with il assms(5) interface_loop_entry [of lib ign interfaces ifs n a] f
  show ?thesis by blast
qed

text \<open>
  C8. A record that carries both fields never makes the enricher raise, whatever its
  address string is: when every fetched record carries \<open>ifname\<close> and \<open>ip-address\<close>,
  \<open>add_interface_info\<close> returns. \<open>is_ipv4\<close> is false exactly on the strings that
  \<open>ip_network\<close> rejects. Every entry of a device's \<open>interfaces\<close> dictionary is the
  name and the address of one fetched record, and \<open>ip_network\<close> accepts that address:
  a record with a malformed address adds nothing, and its name is no key of the
  dictionary when every fetched record of that name has a malformed address.
\<close>

theorem malformed_address_never_raises:
  assumes "distinct (dict_keys devices)"
    and "list_all (\<lambda>d. case fetched requests_get auth base d of
            Inl e \<Rightarrow> False
          | Inr interfaces \<Rightarrow>
              list_all (\<lambda>r. dict_get r ''ifname'' \<noteq> None \<and> dict_get r ''ip-address'' \<noteq> None)
                interfaces) (dict_keys devices)"
  shows "(\<exists>devices'. add_interface_info requests_get lib devices auth base ign = Inr devices' \<and>
      (\<forall>d data' ifs n a. dict_get devices' d = Some data'
           \<and> dict_get data' ''interfaces'' = Some (Dict ifs) \<and> dict_get ifs n = Some a
         \<longrightarrow> ip_network lib a \<noteq> Inl ValueError
           \<and> (\<exists>interfaces r. fetched requests_get auth base d = Inr interfaces
                \<and> r \<in> set interfaces \<and> dict_get r ''ifname'' = Some n
                \<and> dict_get r ''ip-address'' = Some a)) \<and>
      (\<forall>d data' ifs interfaces n. dict_get devices' d = Some data'
           \<and> dict_get data' ''interfaces'' = Some (Dict ifs)
           \<and> fetched requests_get auth base d = Inr interfaces
           \<and> (\<forall>r \<in> set interfaces. dict_get r ''ifname'' = Some n \<longrightarrow>
                 (\<exists>a. dict_get r ''ip-address'' = Some a \<and> ip_network lib a = Inl ValueError))
         \<longrightarrow> n \<notin> set (dict_keys ifs)))
    \<and> (\<forall>a. is_ipv4 lib a = (ip_network lib a \<noteq> Inl ValueError))"
proof -
  have rd: "list_all (\<lambda>d. case fetched requests_get auth base d of
            Inl e \<Rightarrow> False
          | Inr interfaces \<Rightarrow> list_all (readable ign) interfaces) (dict_keys devices)"
    using assms(2)
    by (auto simp: list_all_iff readable_def split: sum.splits option.splits)
  from device_loop_returns [OF subset_refl rd] obtain devices' where
    run: "add_interface_info requests_get lib devices auth base ign = Inr devices'"
    by (auto simp: add_interface_info_def)
  have entry: "ip_network lib a \<noteq> Inl ValueError
           \<and> (\<exists>interfaces r. fetched requests_get auth base d = Inr interfaces
                \<and> r \<in> set interfaces \<and> dict_get r ''ifname'' = Some n
                \<and> dict_get r ''ip-address'' = Some a)"
    if "dict_get devices' d = Some data'" "dict_get data' ''interfaces'' = Some (Dict ifs)"
       "dict_get ifs n = Some a" for d data' ifs n a
    using add_interface_info_invariant [OF run assms(1) that]
      add_interface_info_entry [OF run assms(1) that] by auto
  have excluded: "n \<notin> set (dict_keys ifs)"
    if d: "dict_get devices' d = Some data'" "dict_get data' ''interfaces'' = Some (Dict ifs)"
      and f: "fetched requests_get auth base d = Inr interfaces"
      and bad: "\<forall>r \<in> set interfaces. dict_get r ''ifname'' = Some n \<longrightarrow>
                 (\<exists>a. dict_get r ''ip-address'' = Some a \<and> ip_network lib a = Inl ValueError)"
    for d data' ifs interfaces n
  proof
    assume "n \<in> set (dict_keys ifs)"
    then obtain a where a: "dict_get ifs n = Some a"
      using dict_get_None_iff [of ifs n] by auto
    from entry [OF d a] f obtain r where "r \<in> set interfaces" "dict_get r ''ifname'' = Some n"
      "dict_get r ''ip-address'' = Some a" "ip_network lib a \<noteq> Inl ValueError"
      by auto
    with bad show False by auto
  qed
  from run entry excluded show ?thesis
    by (simp add: is_ipv4_iff) blast
qed

theorem malformed_address_never_raises_witness:
  "add_interface_info
     (controller [(''https://vmanage:8443/dataservice/device/interface?deviceId=1.1.1.1'',
        [[(''ifname'', ''ge0/0''), (''ip-address'', ''not-an-ip'')],
         [(''ifname'', ''ge0/1''), (''ip-address'', '''')],
         [(''ifname'', ''ge0/2''), (''ip-address'', ''8.8.8.8'')]])])
     py_ipaddress
     [(''1.1.1.1'', [(''system-ip'', Str ''1.1.1.1''), (''host-name'', Str ''r1'')])]
     (''admin'', ''secret'')
     ''https://vmanage:8443/dataservice/device/interface?deviceId=''
     [''ge0/0.22'']
   = Inr [(''1.1.1.1'', [(''system-ip'', Str ''1.1.1.1''), (''host-name'', Str ''r1''),
                          (''interfaces'', Dict [(''ge0/2'', ''8.8.8.8'')])])]
   \<and> is_ipv4 py_ipaddress ''not-an-ip'' = False
   \<and> is_ipv4 py_ipaddress '''' = False
   \<and> ip_network py_ipaddress ''not-an-ip'' = Inl ValueError
   \<and> ''ge0/0'' \<notin> set (dict_keys [(''ge0/2'', ''8.8.8.8'')])
   \<and> ''ge0/1'' \<notin> set (dict_keys [(''ge0/2'', ''8.8.8.8'')])"
proof -
  let ?http = "controller [(''https://vmanage:8443/dataservice/device/interface?deviceId=1.1.1.1'',
        [[(''ifname'', ''ge0/0''), (''ip-address'', ''not-an-ip'')],
         [(''ifname'', ''ge0/1''), (''ip-address'', '''')],
         [(''ifname'', ''ge0/2''), (''ip-address'', ''8.8.8.8'')]])]"
  let ?devices = "[(''1.1.1.1'', [(''system-ip'', Str ''1.1.1.1''), (''host-name'', Str ''r1'')])]"
  let ?base = "''https://vmanage:8443/dataservice/device/interface?deviceId=''"
  let ?out = "[(''1.1.1.1'', [(''system-ip'', Str ''1.1.1.1''), (''host-name'', Str ''r1''),
                          (''interfaces'', Dict [(''ge0/2'', ''8.8.8.8'')])])]"
  have dist: "distinct (dict_keys ?devices)"
    by (simp add: dict_keys_def)
  have fields: "list_all (\<lambda>d. case fetched ?http (''admin'', ''secret'') ?base d of
            Inl e \<Rightarrow> False
          | Inr interfaces \<Rightarrow>
              list_all (\<lambda>r. dict_get r ''ifname'' \<noteq> None \<and> dict_get r ''ip-address'' \<noteq> None)
                interfaces) (dict_keys ?devices)"
    by code_simp
  have run: "add_interface_info ?http py_ipaddress ?devices (''admin'', ''secret'') ?base
     [''ge0/0.22''] = Inr ?out"
    by code_simp
  have rej: "ip_network py_ipaddress ''not-an-ip'' = Inl ValueError"
    and rej': "ip_network py_ipaddress '''' = Inl ValueError"
    by code_simp+
  from malformed_address_never_raises [OF dist fields, of py_ipaddress "[''ge0/0.22'']"]
  have "\<forall>a. is_ipv4 py_ipaddress a = (ip_network py_ipaddress a \<noteq> Inl ValueError)"
    by blast
  with rej rej' have "is_ipv4 py_ipaddress ''not-an-ip'' = False"
    and "is_ipv4 py_ipaddress '''' = False"
    by simp_all
  with run rej show ?thesis by (simp add: dict_keys_def)
qed

text \<open>
  C10. When the fetches themselves return, a fetched record that lacks \<open>ifname\<close>, or
  that is not ignored and lacks \<open>ip-address\<close>, makes \<open>add_interface_info\<close> raise a
  \<open>KeyError\<close> for one of these two keys.
\<close>

theorem missing_field_raises_KeyError:
  assumes "list_all (\<lambda>d. case fetched requests_get auth base d of
            Inl e \<Rightarrow> False | Inr interfaces \<Rightarrow> True) (dict_keys devices)"
    and "d \<in> set (dict_keys devices)"
    and "fetched requests_get auth base d = Inr interfaces"
    and "r \<in> set interfaces"
    and "dict_get r ''ifname'' = None \<or>
         (\<exists>n. dict_get r ''ifname'' = Some n \<and> n \<notin> set ign \<and> dict_get r ''ip-address'' = None)"
  shows "add_interface_info requests_get lib devices auth base ign = Inl (KeyError ''ifname'') \<or>
         add_interface_info requests_get lib devices auth base ign = Inl (KeyError ''ip-address'')"
proof -
  from assms(5) have "\<not> readable ign r"
    by (auto simp: readable_def)
  with assms(4) have "\<not> list_all (readable ign) interfaces"
    by (auto simp: list_all_iff)
  with assms(2,3) have
    "list_ex (\<lambda>d. case fetched requests_get auth base d of
                    Inl e \<Rightarrow> False
                  | Inr interfaces \<Rightarrow> \<not> list_all (readable ign) interfaces) (dict_keys devices)"
    unfolding list_ex_iff by (intro bexI [of _ d]) simp_all
  from device_loop_raises [OF subset_refl assms(1) this] show ?thesis
    by (simp add: add_interface_info_def)
qed

theorem missing_field_raises_KeyError_witness:
  "add_interface_info
     (controller [(''https://vmanage:8443/dataservice/device/interface?deviceId=1.1.1.1'',
        [[(''ifname'', ''ge0/0''), (''ip-address'', ''8.8.8.8'')],
         [(''ifname'', ''ge0/1''), (''ipv6-address'', ''2606:4700:4700::1111'')]])])
     py_ipaddress
     [(''1.1.1.1'', [(''system-ip'', Str ''1.1.1.1''), (''host-name'', Str ''r1'')])]
     (''admin'', ''secret'')
     ''https://vmanage:8443/dataservice/device/interface?deviceId=''
     [''ge0/0.22'']
   = Inl (KeyError ''ip-address'')"
proof -
  let ?records = "[[(''ifname'', ''ge0/0''), (''ip-address'', ''8.8.8.8'')],
         [(''ifname'', ''ge0/1''), (''ipv6-address'', ''2606:4700:4700::1111'')]]"
  let ?http = "controller
     [(''https://vmanage:8443/dataservice/device/interface?deviceId=1.1.1.1'', ?records)]"
  let ?devices = "[(''1.1.1.1'', [(''system-ip'', Str ''1.1.1.1''), (''host-name'', Str ''r1'')])]"
  let ?base = "''https://vmanage:8443/dataservice/device/interface?deviceId=''"
  have 1: "list_all (\<lambda>d. case fetched ?http (''admin'', ''secret'') ?base d of
            Inl e \<Rightarrow> False | Inr interfaces \<Rightarrow> True) (dict_keys ?devices)"
    by code_simp
  have 2: "''1.1.1.1'' \<in> set (dict_keys ?devices)"
    by (simp add: dict_keys_def)
  have 3: "fetched ?http (''admin'', ''secret'') ?base ''1.1.1.1'' = Inr ?records"
    by code_simp
  have 4: "[(''ifname'', ''ge0/1''), (''ipv6-address'', ''2606:4700:4700::1111'')] \<in> set ?records"
    by simp
  have 5: "dict_get [(''ifname'', ''ge0/1''), (''ipv6-address'', ''2606:4700:4700::1111'')] ''ifname'' = None \<or>
         (\<exists>n. dict_get [(''ifname'', ''ge0/1''), (''ipv6-address'', ''2606:4700:4700::1111'')] ''ifname'' = Some n
            \<and> n \<notin> set [''ge0/0.22'']
            \<and> dict_get [(''ifname'', ''ge0/1''), (''ipv6-address'', ''2606:4700:4700::1111'')] ''ip-address'' = None)"
    by (simp add: dict_get_def)
  have ne: "add_interface_info ?http py_ipaddress ?devices (''admin'', ''secret'') ?base
     [''ge0/0.22''] \<noteq> Inl (KeyError ''ifname'')"
    by code_simp
  from missing_field_raises_KeyError [OF 1 2 3 4 5, of py_ipaddress] ne show ?thesis
    by blast
qed


lemma named_append:
  "named lib ign n (xs @ ys) = named lib ign n xs @ named lib ign n ys"
  by (simp add: named_def)

lemma retained_address:
  "retained lib ign r \<Longrightarrow> \<exists>a. dict_get r ''ip-address'' = Some a"
  by (auto simp: retained_def split: option.splits)

text \<open>
  C2 (as amended). When \<open>add_interface_info\<close> returns, a fetched record whose name is
  not ignored and whose address is a valid IPv4 address or network that is not private
  makes its name a key of the device's \<open>interfaces\<close> dictionary. The name is bound to
  the address of the last record of the fetched list that has this name and passes the
  filters: to the record's own address, unless such a record comes later in the list.
\<close>

theorem public_interface_recorded:
  assumes "add_interface_info requests_get lib devices auth base ign = Inr devices'"
    and "distinct (dict_keys devices)"
    and "d \<in> set (dict_keys devices)"
    and "fetched requests_get auth base d = Inr (before @ r # after)"
    and "dict_get r ''ifname'' = Some n" and "n \<notin> set ign"
    and "dict_get r ''ip-address'' = Some a"
    and "IPv4Network lib a = Some net" and "\<not> is_private lib net"
  shows "\<exists>data' ifs. dict_get devices' d = Some data'
      \<and> dict_get data' ''interfaces'' = Some (Dict ifs)
      \<and> n \<in> set (dict_keys ifs)
      \<and> dict_get ifs n =
          dict_get (last (named lib ign n (before @ r # after))) ''ip-address''
      \<and> (named lib ign n after = [] \<longrightarrow> dict_get ifs n = Some a)"
proof -
  from assms(1) have run:
    "device_loop requests_get lib auth base ign devices (dict_keys devices) = Inr devices'"
    by (simp add: add_interface_info_def)
  from device_loop_get [OF run assms(2), of d] assms(3,4) obtain data ifs where
    il: "interface_loop lib ign [] (before @ r # after) = Inr ifs" and
    d': "dict_get devices' d = Some (dict_set data ''interfaces'' (Dict ifs))"
    by auto
  have ret: "retained lib ign r"
    using assms(5-9) by (simp add: retained_def ip_network_def)
  then have nm: "named lib ign n (before @ r # after)
      = named lib ign n before @ r # named lib ign n after"
    using assms(5) by (simp add: named_def)
  have "named lib ign n (before @ r # after) \<noteq> []"
    unfolding nm by simp
  then obtain x xs where cons: "named lib ign n (before @ r # after) = x # xs"
    by (auto simp: neq_Nil_conv)
  from interface_loop_get [OF il, of n] cons
  have get: "dict_get ifs n = dict_get (last (x # xs)) ''ip-address''"
    by simp
  from named_last [OF cons] retained_address obtain a' where
    "dict_get (last (x # xs)) ''ip-address'' = Some a'"
    by blast
  with get have key: "n \<in> set (dict_keys ifs)"
    using dict_get_None_iff [of ifs n] by auto
  have own: "dict_get ifs n = Some a" if "named lib ign n after = []"
  proof -
    from that nm cons have "last (x # xs) = r" by simp
    with get assms(7) show ?thesis by simp
  qed
  from get cons have
    "dict_get ifs n = dict_get (last (named lib ign n (before @ r # after))) ''ip-address''"
    by simp
  with key own d' show ?thesis
    by (auto simp: dict_get_set)
qed

theorem public_interface_recorded_witness:
  "add_interface_info
     (controller [(''https://vmanage:8443/dataservice/device/interface?deviceId=1.1.1.1'',
        [[(''ifname'', ''ge0/0''), (''ip-address'', ''8.8.8.8'')],
         [(''ifname'', ''ge0/1''), (''ip-address'', ''10.0.0.1'')],
         [(''ifname'', ''ge0/0.22''), (''ip-address'', ''9.9.9.9'')]])])
     py_ipaddress
     [(''1.1.1.1'', [(''system-ip'', Str ''1.1.1.1''), (''host-name'', Str ''r1'')])]
     (''admin'', ''secret'')
     ''https://vmanage:8443/dataservice/device/interface?deviceId=''
     [''ge0/0.22'']
   = Inr [(''1.1.1.1'', [(''system-ip'', Str ''1.1.1.1''), (''host-name'', Str ''r1''),
                          (''interfaces'', Dict [(''ge0/0'', ''8.8.8.8'')])])]
   \<and> IPv4Network py_ipaddress ''8.8.8.8'' = Some (IPv4Net 134744072 32)
   \<and> \<not> is_private py_ipaddress (IPv4Net 134744072 32)
   \<and> dict_get [(''ge0/0'', ''8.8.8.8'')] ''ge0/0'' = Some ''8.8.8.8''
   \<and> add_interface_info
     (controller [(''https://vmanage:8443/dataservice/device/interface?deviceId=1.1.1.1'',
        [[(''ifname'', ''ge0/0''), (''ip-address'', ''8.8.8.8'')],
         [(''ifname'', ''ge0/0''), (''ip-address'', ''2606:4700:4700::1111'')]])])
     py_ipaddress
     [(''1.1.1.1'', [(''system-ip'', Str ''1.1.1.1''), (''host-name'', Str ''r1'')])]
     (''admin'', ''secret'')
     ''https://vmanage:8443/dataservice/device/interface?deviceId=''
     [''ge0/0.22'']
   = Inr [(''1.1.1.1'', [(''system-ip'', Str ''1.1.1.1''), (''host-name'', Str ''r1''),
                          (''interfaces'', Dict [(''ge0/0'', ''2606:4700:4700::1111'')])])]
   \<and> dict_get [(''ge0/0'', ''2606:4700:4700::1111'')] ''ge0/0'' = Some ''2606:4700:4700::1111''"
proof -
  let ?r = "[(''ifname'', ''ge0/0''), (''ip-address'', ''8.8.8.8'')]"
  let ?after = "[[(''ifname'', ''ge0/1''), (''ip-address'', ''10.0.0.1'')],
         [(''ifname'', ''ge0/0.22''), (''ip-address'', ''9.9.9.9'')]]"
  let ?later = "[[(''ifname'', ''ge0/0''), (''ip-address'', ''2606:4700:4700::1111'')]]"
  let ?http = "controller
     [(''https://vmanage:8443/dataservice/device/interface?deviceId=1.1.1.1'', ?r # ?after)]"
  let ?http2 = "controller
     [(''https://vmanage:8443/dataservice/device/interface?deviceId=1.1.1.1'', ?r # ?later)]"
  let ?devices = "[(''1.1.1.1'', [(''system-ip'', Str ''1.1.1.1''), (''host-name'', Str ''r1'')])]"
  let ?base = "''https://vmanage:8443/dataservice/device/interface?deviceId=''"
  let ?out = "[(''1.1.1.1'', [(''system-ip'', Str ''1.1.1.1''), (''host-name'', Str ''r1''),
                          (''interfaces'', Dict [(''ge0/0'', ''8.8.8.8'')])])]"
  let ?out2 = "[(''1.1.1.1'', [(''system-ip'', Str ''1.1.1.1''), (''host-name'', Str ''r1''),
                          (''interfaces'', Dict [(''ge0/0'', ''2606:4700:4700::1111'')])])]"
  have run: "add_interface_info ?http py_ipaddress ?devices (''admin'', ''secret'') ?base
     [''ge0/0.22''] = Inr ?out"
    by code_simp
  have run2: "add_interface_info ?http2 py_ipaddress ?devices (''admin'', ''secret'') ?base
     [''ge0/0.22''] = Inr ?out2"
    by code_simp
  have dist: "distinct (dict_keys ?devices)" and dev: "''1.1.1.1'' \<in> set (dict_keys ?devices)"
    by (simp_all add: dict_keys_def)
  have f: "fetched ?http (''admin'', ''secret'') ?base ''1.1.1.1'' = Inr ([] @ ?r # ?after)"
    by code_simp
  have f2: "fetched ?http2 (''admin'', ''secret'') ?base ''1.1.1.1'' = Inr ([] @ ?r # ?later)"
    by code_simp
  have nm: "dict_get ?r ''ifname'' = Some ''ge0/0''" and ad: "dict_get ?r ''ip-address'' = Some ''8.8.8.8''"
    by (simp_all add: dict_get_def)
  have ni: "''ge0/0'' \<notin> set [''ge0/0.22'']" by simp
  have v4: "IPv4Network py_ipaddress ''8.8.8.8'' = Some (IPv4Net 134744072 32)"
    by code_simp
  have pub: "\<not> is_private py_ipaddress (IPv4Net 134744072 32)"
    by code_simp
  have later: "named py_ipaddress [''ge0/0.22''] ''ge0/0'' ?after = []"
    by code_simp
  have last2: "dict_get (last (named py_ipaddress [''ge0/0.22''] ''ge0/0'' ([] @ ?r # ?later)))
      ''ip-address'' = Some ''2606:4700:4700::1111''"
    by code_simp
  from public_interface_recorded [OF run dist dev f nm ni ad v4 pub] later
  obtain data' ifs where "dict_get ?out ''1.1.1.1'' = Some data'"
    "dict_get data' ''interfaces'' = Some (Dict ifs)" "dict_get ifs ''ge0/0'' = Some ''8.8.8.8''"
    by blast
  then have 1: "dict_get [(''ge0/0'', ''8.8.8.8'')] ''ge0/0'' = Some ''8.8.8.8''"
    by (simp add: dict_get_def)
  from public_interface_recorded [OF run2 dist dev f2 nm ni ad v4 pub] last2
  obtain data2 ifs2 where "dict_get ?out2 ''1.1.1.1'' = Some data2"
    "dict_get data2 ''interfaces'' = Some (Dict ifs2)"
    "dict_get ifs2 ''ge0/0'' = Some ''2606:4700:4700::1111''"
    by auto
  then have 2: "dict_get [(''ge0/0'', ''2606:4700:4700::1111'')] ''ge0/0''
      = Some ''2606:4700:4700::1111''"
    by (simp add: dict_get_def)
  from run run2 v4 pub 1 2 show ?thesis by simp
qed

text \<open>
  The claim as first stated has every such record appear in the output. Two records of
  one interface name, both with public addresses: the dictionary holds the later one.
\<close>

theorem public_interface_overwritten_counterexample:
  "add_interface_info
     (controller [(''https://vmanage:8443/dataservice/device/interface?deviceId=1.1.1.1'',
        [[(''ifname'', ''ge0/0''), (''ip-address'', ''8.8.8.8'')],
         [(''ifname'', ''ge0/0''), (''ip-address'', ''9.9.9.9'')]])])
     py_ipaddress
     [(''1.1.1.1'', [(''system-ip'', Str ''1.1.1.1''), (''host-name'', Str ''r1'')])]
     (''admin'', ''secret'')
     ''https://vmanage:8443/dataservice/device/interface?deviceId=''
     [''ge0/0.22'']
   = Inr [(''1.1.1.1'', [(''system-ip'', Str ''1.1.1.1''), (''host-name'', Str ''r1''),
                          (''interfaces'', Dict [(''ge0/0'', ''9.9.9.9'')])])]
   \<and> IPv4Network py_ipaddress ''8.8.8.8'' = Some (IPv4Net 134744072 32)
   \<and> \<not> is_private py_ipaddress (IPv4Net 134744072 32)
   \<and> ''8.8.8.8'' \<notin> set (dict_values [(''ge0/0'', ''9.9.9.9'')])"
  by code_simp

text \<open>
  C1, at an input where the code departs from it: an IPv6 address is no IPv4 address or
  network, yet \<open>is_ipv4\<close> accepts it, because \<open>ip_network\<close> falls back to the IPv6
  constructor, and the address enters the \<open>interfaces\<close> dictionary.
\<close>

theorem ipv6_address_enters_interfaces:
  "add_interface_info
     (controller [(''https://vmanage:8443/dataservice/device/interface?deviceId=1.1.1.1'',
        [[(''ifname'', ''ge0/0''), (''ip-address'', ''2606:4700:4700::1111'')]])])
     py_ipaddress
     [(''1.1.1.1'', [(''system-ip'', Str ''1.1.1.1''), (''host-name'', Str ''r1'')])]
     (''admin'', ''secret'')
     ''https://vmanage:8443/dataservice/device/interface?deviceId=''
     [''ge0/0.22'']
   = Inr [(''1.1.1.1'', [(''system-ip'', Str ''1.1.1.1''), (''host-name'', Str ''r1''),
                          (''interfaces'', Dict [(''ge0/0'', ''2606:4700:4700::1111'')])])]
   \<and> IPv4Network py_ipaddress ''2606:4700:4700::1111'' = None
   \<and> is_ipv4 py_ipaddress ''2606:4700:4700::1111''"
  by code_simp


section \<open>The report writers: proofs\<close>

lemma concat_lines: "xs \<noteq> [] \<Longrightarrow> concat (map (\<lambda>s. s @ sep) xs) = join sep xs @ sep"
  by (induction sep xs rule: join.induct) auto

lemma names_lines:
  "ifs \<noteq> [] \<Longrightarrow>
   concat (map (\<lambda>(interface, ip). interface @ [CHR 0x0A]) ifs) = join [CHR 0x0A] (dict_keys ifs) @ [CHR 0x0A]"
  using concat_lines [of "dict_keys ifs" "[CHR 0x0A]"]
  by (simp add: dict_keys_def comp_def case_prod_unfold)

lemma addresses_lines:
  "ifs \<noteq> [] \<Longrightarrow>
   concat (map (\<lambda>(interface, ip). ip @ [CHR 0x0A]) ifs) = join [CHR 0x0A] (dict_values ifs) @ [CHR 0x0A]"
  using concat_lines [of "dict_values ifs" "[CHR 0x0A]"]
  by (simp add: dict_values_def comp_def case_prod_unfold)

lemma write_keys_enriched:
  "list_all (\<lambda>key. case get_val data key of Str s \<Rightarrow> True | Dict d \<Rightarrow> False) keys \<Longrightarrow>
   write_keys row col data keys =
     Inr (map (\<lambda>(c, key). (row, c, cell_text data key, base_format)) (enumerate col keys))"
proof (induction keys arbitrary: col)
  case Nil
  show ?case by simp
next
  case (Cons key rest)
  then show ?case
    by (auto simp: worksheet_write_def cell_text_def split: val.splits)
qed

lemma truthy_interfaces_enriched:
  "enriched keys data \<Longrightarrow>
   truthy_interfaces data =
     Inr (if interfaces_of data = [] then None else Some (interfaces_of data))"
  by (auto simp: enriched_def truthy_interfaces_def interfaces_of_def
      split: option.splits val.splits)

lemma excel_row_enriched:
  assumes "enriched keys data"
  shows "\<exists>key_cells interface_cells.
     write_keys row 0 data keys = Inr key_cells \<and>
     write_interfaces row (length keys) data = Inr interface_cells \<and>
     key_cells @ interface_cells = data_row row keys data"
proof -
  from assms have k: "write_keys row 0 data keys =
      Inr (map (\<lambda>(c, key). (row, c, cell_text data key, base_format)) (enumerate 0 keys))"
    by (simp add: enriched_def write_keys_enriched)
  show ?thesis
  proof (cases "interfaces_of data = []")
    case True
    with truthy_interfaces_enriched [OF assms] k show ?thesis
      by (simp add: write_interfaces_def data_row_def)
  next
    case False
    with truthy_interfaces_enriched [OF assms] k show ?thesis
      by (simp add: write_interfaces_def data_row_def names_lines addresses_lines)
  qed
qed

lemma excel_rows_enriched:
  "list_all (\<lambda>(device, data). enriched keys data) devices \<Longrightarrow>
   excel_rows row keys devices =
     Inr (concat (map (\<lambda>(r, device, data). data_row r keys data) (enumerate row devices)))"
proof (induction devices arbitrary: row)
  case Nil
  show ?case by simp
next
  case (Cons p rest)
  obtain device data where p: "p = (device, data)" by (cases p)
  with Cons.prems have e: "enriched keys data"
    and rest: "list_all (\<lambda>(device, data). enriched keys data) rest"
    by simp_all
  from excel_row_enriched [OF e, of row] obtain key_cells interface_cells where
    "write_keys row 0 data keys = Inr key_cells"
    "write_interfaces row (length keys) data = Inr interface_cells"
    "key_cells @ interface_cells = data_row row keys data"
    by blast
  with Cons.IH [OF rest, of "row + 1"] p show ?case
    by simp
qed

lemma html_rows_enriched:
  "list_all (\<lambda>(device, data). enriched keys data) devices \<Longrightarrow>
   html_rows repr keys devices =
     Inr (map (\<lambda>(device, data). html_row repr keys data (interfaces_of data))
            (filter (\<lambda>(device, data). interfaces_of data \<noteq> []) devices))"
proof (induction devices)
  case Nil
  show ?case by simp
next
  case (Cons p rest)
  obtain device data where p: "p = (device, data)" by (cases p)
  with Cons.prems have e: "enriched keys data"
    and rest: "list_all (\<lambda>(device, data). enriched keys data) rest"
    by simp_all
  from Cons.IH [OF rest] truthy_interfaces_enriched [OF e] p show ?case
    by simp
qed

text \<open>
  C5. For devices as the enricher leaves them, the spreadsheet has the header row and
  one data row for every device, in order, from row 1 on; the row of a device without
  interfaces holds the key cells only. The HTML file has the head, the header row, one
  row for every device that has at least one interface, in order, and the tail: a
  device without interfaces has no row there.
\<close>

theorem report_rows:
  assumes "list_all (\<lambda>(device, data). enriched keys data) devices"
  shows "export_to_excel devices keys =
      Inr (write_row 0 0 keys header_format @
           write_row 0 (length keys) [''interface-name'', ''interface-IP''] header_format @
           concat (map (\<lambda>(row, device, data). data_row row keys data) (enumerate 1 devices)))
    \<and> export_to_html repr devices keys =
      Inr ([html_head, [CHR 0x09, CHR 0x09] @ ''<tr>'' @ html_header_columns keys @ [CHR 0x0D]] @
           map (\<lambda>(device, data). html_row repr keys data (interfaces_of data))
             (filter (\<lambda>(device, data). interfaces_of data \<noteq> []) devices) @
           [html_tail])
    \<and> (\<forall>row data. interfaces_of data = [] \<longrightarrow>
          data_row row keys data =
            map (\<lambda>(col, key). (row, col, cell_text data key, base_format)) (enumerate 0 keys))"
  using excel_rows_enriched [OF assms, of 1] html_rows_enriched [OF assms, of repr]
  by (simp add: export_to_excel_def export_to_html_def data_row_def)


theorem report_rows_witness:
  "export_to_excel
     [(''1.1.1.1'', [(''system-ip'', Str ''1.1.1.1''), (''host-name'', Str ''r1''),
                     (''interfaces'', Dict [(''ge0/0'', ''8.8.8.8''), (''ge0/2'', ''9.9.9.9'')])]),
      (''2.2.2.2'', [(''system-ip'', Str ''2.2.2.2''), (''host-name'', Str ''r2''),
                     (''interfaces'', Dict [])])]
     [''system-ip'', ''host-name'']
   = Inr [(0, 0, ''system-ip'', header_format), (0, 1, ''host-name'', header_format),
          (0, 2, ''interface-name'', header_format), (0, 3, ''interface-IP'', header_format),
          (1, 0, ''1.1.1.1'', base_format), (1, 1, ''r1'', base_format),
          (1, 2, ''ge0/0'' @ [CHR 0x0A] @ ''ge0/2'', wrap_format),
          (1, 3, ''8.8.8.8'' @ [CHR 0x0A] @ ''9.9.9.9'', wrap_format),
          (2, 0, ''2.2.2.2'', base_format), (2, 1, ''r2'', base_format)]
   \<and> export_to_html (\<lambda>d. [])
     [(''1.1.1.1'', [(''system-ip'', Str ''1.1.1.1''), (''host-name'', Str ''r1''),
                     (''interfaces'', Dict [(''ge0/0'', ''8.8.8.8''), (''ge0/2'', ''9.9.9.9'')])]),
      (''2.2.2.2'', [(''system-ip'', Str ''2.2.2.2''), (''host-name'', Str ''r2''),
                     (''interfaces'', Dict [])])]
     [''system-ip'', ''host-name'']
   = Inr [html_head,
          [CHR 0x09, CHR 0x09] @ ''<tr><th>system-ip</th><th>host-name</th>'' @
            ''<th>interface-name</th><th>interface-IP</th></tr>'' @ [CHR 0x0D, CHR 0x09, CHR 0x09] @
            ''</thead>'' @ [CHR 0x0D, CHR 0x09, CHR 0x09] @ ''<tbody>'' @ [CHR 0x0D],
          [CHR 0x09, CHR 0x09, CHR 0x09] @ ''<tr><td>1.1.1.1</td><td>r1</td>'' @
            ''<td>ge0/0<br>ge0/2</td><td>8.8.8.8<br>9.9.9.9</td></tr>'' @ [CHR 0x0D],
          html_tail]"
proof -
  let ?devices = "[(''1.1.1.1'', [(''system-ip'', Str ''1.1.1.1''), (''host-name'', Str ''r1''),
                     (''interfaces'', Dict [(''ge0/0'', ''8.8.8.8''), (''ge0/2'', ''9.9.9.9'')])]),
      (''2.2.2.2'', [(''system-ip'', Str ''2.2.2.2''), (''host-name'', Str ''r2''),
                     (''interfaces'', Dict [])])]"
  let ?keys = "[''system-ip'', ''host-name'']"
  have enr: "list_all (\<lambda>(device, data). enriched ?keys data) ?devices"
    by code_simp
  have excel: "write_row 0 0 ?keys header_format @
           write_row 0 (length ?keys) [''interface-name'', ''interface-IP''] header_format @
           concat (map (\<lambda>(row, device, data). data_row row ?keys data) (enumerate 1 ?devices))
     = [(0, 0, ''system-ip'', header_format), (0, 1, ''host-name'', header_format),
          (0, 2, ''interface-name'', header_format), (0, 3, ''interface-IP'', header_format),
          (1, 0, ''1.1.1.1'', base_format), (1, 1, ''r1'', base_format),
          (1, 2, ''ge0/0'' @ [CHR 0x0A] @ ''ge0/2'', wrap_format),
          (1, 3, ''8.8.8.8'' @ [CHR 0x0A] @ ''9.9.9.9'', wrap_format),
          (2, 0, ''2.2.2.2'', base_format), (2, 1, ''r2'', base_format)]"
    by code_simp
  have html: "[html_head, [CHR 0x09, CHR 0x09] @ ''<tr>'' @ html_header_columns ?keys @ [CHR 0x0D]] @
           map (\<lambda>(device, data). html_row (\<lambda>d. []) ?keys data (interfaces_of data))
             (filter (\<lambda>(device, data). interfaces_of data \<noteq> []) ?devices) @
           [html_tail]
     = [html_head,
          [CHR 0x09, CHR 0x09] @ ''<tr><th>system-ip</th><th>host-name</th>'' @
            ''<th>interface-name</th><th>interface-IP</th></tr>'' @ [CHR 0x0D, CHR 0x09, CHR 0x09] @
            ''</thead>'' @ [CHR 0x0D, CHR 0x09, CHR 0x09] @ ''<tbody>'' @ [CHR 0x0D],
          [CHR 0x09, CHR 0x09, CHR 0x09] @ ''<tr><td>1.1.1.1</td><td>r1</td>'' @
            ''<td>ge0/0<br>ge0/2</td><td>8.8.8.8<br>9.9.9.9</td></tr>'' @ [CHR 0x0D],
          html_tail]"
    by code_simp
  from report_rows [OF enr, of "\<lambda>d. []"] show ?thesis
    unfolding excel html by blast
qed


section \<open>The credential store: proofs\<close>

lemma b2a_table:
  "list_all (\<lambda>n. a2b (b2a n) = Some n \<and> b2a n \<noteq> CHR ''='')
     [63, 62, 61, 60, 59, 58, 57, 56, 55, 54, 53, 52, 51, 50, 49, 48,
      47, 46, 45, 44, 43, 42, 41, 40, 39, 38, 37, 36, 35, 34, 33, 32,
      31, 30, 29, 28, 27, 26, 25, 24, 23, 22, 21, 20, 19, 18, 17, 16,
      15, 14, 13, 12, 11, 10, 9, 8, 7, 6, 5, 4, 3, 2, 1, 0]"
  by (simp add: a2b_def b2a_def b64_alphabet_def)

lemma less_64:
  "n < 64 \<Longrightarrow>
   n \<in> set
     [63, 62, 61, 60, 59, 58, 57, 56, 55, 54, 53, 52, 51, 50, 49, 48,
      47, 46, 45, 44, 43, 42, 41, 40, 39, 38, 37, 36, 35, 34, 33, 32,
      31, 30, 29, 28, 27, 26, 25, 24, 23, 22, 21, 20, 19, 18, 17, 16,
      15, 14, 13, 12, 11, 10, 9, 8, 7, 6, 5, 4, 3, 2, 1, 0 :: nat]"
  by simp presburger

lemma a2b_b2a: "n < 64 \<Longrightarrow> a2b (b2a n) = Some n"
  using b2a_table less_64 [of n] unfolding list_all_iff by blast

lemma b2a_not_pad: "n < 64 \<Longrightarrow> b2a n \<noteq> CHR ''=''"
  using b2a_table less_64 [of n] unfolding list_all_iff by blast

text \<open>Three bytes cut into four groups of six bits, and put together again.\<close>

lemma byte_high_nibble: "y < 256 \<Longrightarrow> y div 16 < (16::nat)"
  by (simp add: less_mult_imp_div_less)

lemma byte_high_pair: "z < 256 \<Longrightarrow> z div 64 < (4::nat)"
  by (simp add: less_mult_imp_div_less)

lemma byte_high_six: "x < 256 \<Longrightarrow> x div 4 < (64::nat)"
  by (simp add: less_mult_imp_div_less)

lemma sextets_first: "y < 256 \<Longrightarrow> x div 4 * 4 + (x mod 4 * 16 + y div 16) div 16 = (x::nat)"
  using byte_high_nibble [of y] by simp

lemma sextets_second:
  "y < 256 \<Longrightarrow> z < 256 \<Longrightarrow>
   (x mod 4 * 16 + y div 16) mod 16 * 16 + (y mod 16 * 4 + z div 64) div 4 = (y::nat)"
  using byte_high_nibble [of y] byte_high_pair [of z] by simp

lemma sextets_third: "z < 256 \<Longrightarrow> (y mod 16 * 4 + z div 64) mod 4 * 64 + z mod 64 = (z::nat)"
  using byte_high_pair [of z] by simp

lemma sextets_first_pad: "x div 4 * 4 + (x mod 4 * 16) div 16 = (x::nat)"
  by simp

lemma sextets_second_pad:
  "y < 256 \<Longrightarrow> (x mod 4 * 16 + y div 16) mod 16 * 16 + (y mod 16 * 4) div 4 = (y::nat)"
  using byte_high_nibble [of y] by simp

lemma sextet_sum: "a < 4 \<Longrightarrow> b < 16 \<Longrightarrow> a * 16 + b < (64::nat)"
  by simp

lemma sextet_sum': "a < 16 \<Longrightarrow> b < 4 \<Longrightarrow> a * 4 + b < (64::nat)"
  by simp

lemma sextet_second_bound: "y < 256 \<Longrightarrow> x mod 4 * 16 + y div 16 < (64::nat)"
  using byte_high_nibble [of y] by (intro sextet_sum) simp_all

lemma sextet_third_bound: "z < 256 \<Longrightarrow> y mod 16 * 4 + z div 64 < (64::nat)"
  using byte_high_pair [of z] by (intro sextet_sum') simp_all

lemma sextet_second_pad_bound: "x mod 4 * 16 < (64::nat)"
  using sextet_sum [of "x mod 4" 0] by simp

lemma sextet_third_pad_bound: "y mod 16 * 4 < (64::nat)"
  using sextet_sum' [of "y mod 16" 0] by simp

lemmas sextet_bounds =
  byte_high_six sextet_second_bound sextet_third_bound sextet_second_pad_bound
  sextet_third_pad_bound

text \<open>The decoder on one character of the alphabet, by the position in the group.\<close>

lemma a2b_base64_data:
  assumes "n < 64"
  shows "a2b_base64 (b2a n # rest) quad_pos leftchar pads out =
     (if quad_pos = 0 then a2b_base64 rest 1 n 0 out
      else if quad_pos = 1 then
        a2b_base64 rest 2 (n mod 16) 0 (out @ [char_of (leftchar * 4 + n div 16)])
      else if quad_pos = 2 then
        a2b_base64 rest 3 (n mod 4) 0 (out @ [char_of (leftchar * 16 + n div 4)])
      else a2b_base64 rest 0 0 0 (out @ [char_of (leftchar * 64 + n)]))"
  using a2b_b2a [OF assms] b2a_not_pad [OF assms] by simp

lemma a2b_base64_pad:
  "a2b_base64 (CHR ''='' # rest) quad_pos leftchar pads out =
     (if 2 \<le> quad_pos \<and> 4 \<le> quad_pos + (pads + 1) then Inr out
      else a2b_base64 rest quad_pos leftchar (if 2 \<le> quad_pos then pads + 1 else pads) out)"
  by simp

declare a2b_base64.simps(2) [simp del]

lemma a2b_base64_group:
  assumes "s1 < 64" "s2 < 64" "s3 < 64" "s4 < 64"
  shows "a2b_base64 (b2a s1 # b2a s2 # b2a s3 # b2a s4 # rest) 0 leftchar pads out =
     a2b_base64 rest 0 0 0
       (out @ [char_of (s1 * 4 + s2 div 16), char_of (s2 mod 16 * 16 + s3 div 4),
               char_of (s3 mod 4 * 64 + s4)])"
  by (simp add: a2b_base64_data assms)

lemma a2b_base64_last_two:
  assumes "s1 < 64" "s2 < 64" "s3 < 64"
  shows "a2b_base64 [b2a s1, b2a s2, b2a s3, CHR ''=''] 0 leftchar pads out =
     Inr (out @ [char_of (s1 * 4 + s2 div 16), char_of (s2 mod 16 * 16 + s3 div 4)])"
  by (simp add: a2b_base64_data a2b_base64_pad assms)

lemma a2b_base64_last_one:
  assumes "s1 < 64" "s2 < 64"
  shows "a2b_base64 [b2a s1, b2a s2, CHR ''='', CHR ''=''] 0 leftchar pads out =
     Inr (out @ [char_of (s1 * 4 + s2 div 16)])"
  by (simp add: a2b_base64_data a2b_base64_pad assms)

text \<open>The same for the bytes of characters.\<close>

lemma byte_first:
  "char_of (of_char a div 4 * 4 + (of_char a mod 4 * 16 + of_char b div 16) div 16 :: nat) = a"
  by (simp only: sextets_first [OF nat_of_char_less_256] char_of_char)

lemma byte_second:
  "char_of ((of_char a mod 4 * 16 + of_char b div 16) mod 16 * 16
            + (of_char b mod 16 * 4 + of_char c div 64) div 4 :: nat) = b"
  by (simp only: sextets_second [OF nat_of_char_less_256 nat_of_char_less_256] char_of_char)

lemma byte_third:
  "char_of ((of_char b mod 16 * 4 + of_char c div 64) mod 4 * 64 + of_char c mod 64 :: nat) = c"
  by (simp only: sextets_third [OF nat_of_char_less_256] char_of_char)

lemma byte_first_pad:
  "char_of (of_char a div 4 * 4 + (of_char a mod 4 * 16) div 16 :: nat) = a"
  by (simp only: sextets_first_pad char_of_char)

lemma byte_second_pad:
  "char_of ((of_char a mod 4 * 16 + of_char b div 16) mod 16 * 16
            + (of_char b mod 16 * 4) div 4 :: nat) = b"
  by (simp only: sextets_second_pad [OF nat_of_char_less_256] char_of_char)

text \<open>The decoder undoes the encoder, from any state at the start of a group.\<close>

lemma a2b_base64_b64e:
  "a2b_base64 (b64e data) 0 leftchar pads out = Inr (out @ data)"
proof (induction data arbitrary: leftchar pads out rule: b64e.induct)
  case 1
  show ?case by simp
next
  case (2 a)
  have "a2b_base64 (b64e [a]) 0 leftchar pads out =
      Inr (out @ [char_of (of_char a div 4 * 4 + (of_char a mod 4 * 16) div 16 :: nat)])"
    unfolding b64e.simps
    by (rule a2b_base64_last_one) (rule sextet_bounds nat_of_char_less_256)+
  then show ?case
    by (simp only: byte_first_pad)
next
  case (3 a b)
  have "a2b_base64 (b64e [a, b]) 0 leftchar pads out =
      Inr (out @
        [char_of (of_char a div 4 * 4 + (of_char a mod 4 * 16 + of_char b div 16) div 16 :: nat),
         char_of ((of_char a mod 4 * 16 + of_char b div 16) mod 16 * 16
                  + (of_char b mod 16 * 4) div 4 :: nat)])"
    unfolding b64e.simps
    by (rule a2b_base64_last_two) (rule sextet_bounds nat_of_char_less_256)+
  then show ?case
    by (simp only: byte_first byte_second_pad)
next
  case (4 a b c rest)
  have "a2b_base64 (b64e (a # b # c # rest)) 0 leftchar pads out =
      a2b_base64 (b64e rest) 0 0 0 (out @
        [char_of (of_char a div 4 * 4 + (of_char a mod 4 * 16 + of_char b div 16) div 16 :: nat),
         char_of ((of_char a mod 4 * 16 + of_char b div 16) mod 16 * 16
                  + (of_char b mod 16 * 4 + of_char c div 64) div 4 :: nat),
         char_of ((of_char b mod 16 * 4 + of_char c div 64) mod 4 * 64
                  + of_char c mod 64 :: nat)])"
    unfolding b64e.simps append_Cons append_Nil
    by (rule a2b_base64_group) (rule sextet_bounds nat_of_char_less_256 | simp)+
  also have "\<dots> = a2b_base64 (b64e rest) 0 0 0 (out @ [a, b, c])"
    by (simp only: byte_first byte_second byte_third)
  also have "\<dots> = Inr ((out @ [a, b, c]) @ rest)"
    by (rule "4.IH")
  finally show ?case by simp
qed

lemma b64d_b64e: "b64d (b64e data) = Inr data"
  using a2b_base64_b64e [of data 0 0 "[]"] by (simp add: b64d_def)

text \<open>
  C7. Decoding undoes encoding for every byte string, the empty one and those with white
  space included, given what \<open>zlib\<close> promises for it: that \<open>decompress\<close> gives back
  what \<open>compress\<close> was given. The base64 layer is proved to be undone for every byte
  string.
\<close>

theorem decode_pass_encode_pass:
  assumes "zlib_decompress lib (zlib_compress lib data) = Some data"
  shows "decode_pass lib (encode_pass lib data) = Inr data"
  using assms by (simp add: decode_pass_def encode_pass_def b64d_b64e)

theorem decode_pass_encode_pass_witness:
  "zlib_decompress stored (zlib_compress stored ''admin'') = Some ''admin''
   \<and> decode_pass stored (encode_pass stored ''admin'') = Inr ''admin''
   \<and> zlib_decompress stored (zlib_compress stored []) = Some []
   \<and> decode_pass stored (encode_pass stored []) = Inr []
   \<and> zlib_decompress stored (zlib_compress stored ('' p w'' @ [CHR 0x09] @ ''1 ''))
       = Some ('' p w'' @ [CHR 0x09] @ ''1 '')
   \<and> decode_pass stored (encode_pass stored ('' p w'' @ [CHR 0x09] @ ''1 ''))
       = Inr ('' p w'' @ [CHR 0x09] @ ''1 '')"
proof -
  have 1: "zlib_decompress stored (zlib_compress stored ''admin'') = Some ''admin''"
    by code_simp
  have 2: "zlib_decompress stored (zlib_compress stored []) = Some []"
    by code_simp
  have 3: "zlib_decompress stored (zlib_compress stored ('' p w'' @ [CHR 0x09] @ ''1 ''))
       = Some ('' p w'' @ [CHR 0x09] @ ''1 '')"
    by code_simp
  from 1 2 3 decode_pass_encode_pass [OF 1] decode_pass_encode_pass [OF 2]
    decode_pass_encode_pass [OF 3]
  show ?thesis by simp
qed









end
